theory Spec2Isabelle
  imports Complex_Main "HOL-Library.Sublist" "HOL-Library.Product_Lexorder"
begin

section \<open>Exceptions, effects and the outside world\<close>

text \<open>
  Every exception the modelled code can raise is a value. A function of the connectors
  returns a pair: the outcome (\<open>Inl\<close> an exception, \<open>Inr\<close> the returned value) and the
  connector after the call, because a Python exception does not undo the mutations made
  before it was raised.
\<close>

datatype error =
    Unhandled_Status int      \<comment> \<open>\<open>NotImplementedError('Unhandled Status Code "n"')\<close>\<close>
  | NotImplementedError       \<comment> \<open>the abstract methods of the base connector\<close>
  | ValueError string
  | Exception string          \<comment> \<open>\<open>raise Exception(msg)\<close>\<close>
  | AttributeError
  | IndexError
  | KeyError
  | TypeError
  | OverflowError
  | SchedulingConflictError
  | TransportError            \<comment> \<open>\<open>requests.ConnectionError\<close> or \<open>requests.Timeout\<close>\<close>
  | FileNotFoundError
  | PickleError               \<comment> \<open>whatever \<open>pickle.load\<close> raises on content it cannot read\<close>

datatype level = DEBUG | INFO | WARNING | ERROR | CRITICAL

datatype request =
    Get_offers                     \<comment> \<open>GET  BASE_URL/store/offers?countryCode=\<close>
  | Post_purchase string string    \<comment> \<open>POST BASE_URL/store/purchase, itemId and currencyType\<close>
  | Post_request_otc string        \<comment> \<open>POST BASE_URL/auth/request_otc, email\<close>
  | Post_code_check string string  \<comment> \<open>POST BASE_URL/auth/code_check, email and code\<close>
  | Get_accounts_auth              \<comment> \<open>GET  EA_ACCOUNTS_AUTH_URL\<close>
  | Get_signin string              \<comment> \<open>GET  the signin page\<close>
  | Post_email string string       \<comment> \<open>POST the signin page, url and email\<close>
  | Post_one_time_code string string  \<comment> \<open>POST the code page, url and oneTimeCode\<close>
  | Post_access_code string        \<comment> \<open>POST .../auth/access_code\<close>
  | Get_google                     \<comment> \<open>GET  https://google.com, timeout 5\<close>

text \<open>
  The effects of a call, in the order they happen. A log entry keeps the level and the
  format string of the call to the logger (without its quotation marks), not its
  arguments.
\<close>

datatype effect =
    Log level string
  | Http request
  | Sleep
  | Clock                  \<comment> \<open>\<open>time()\<close> or \<open>datetime.now()\<close>\<close>
  | Gmail_list             \<comment> \<open>\<open>GmailConnector.get_messages\<close>\<close>
  | Gmail_get string       \<comment> \<open>\<open>GmailConnector.get_message_details\<close>\<close>
  | Read_session_file
  | Write_session_file
  | Print string
  | Input string           \<comment> \<open>\<open>input(prompt)\<close>\<close>

type_synonym cookies = "(string \<times> string) list"

text \<open>
  What the code reads of a \<open>requests\<close> response: the status; the store data, that is the
  body after \<open>response.json()\<close> and the wrapper class \<open>StoreData\<close> of the store (type
  \<open>'d\<close>; \<open>Inl\<close> when one of the two raises); whether \<open>response.json()\<close> returns at all;
  the number of entries under the key \<open>itemsGranted\<close> of the JSON body (\<open>None\<close> without
  that key); the entry \<open>authId\<close> of the JSON body; \<open>response.url\<close> and the first value
  of its query parameter \<open>code\<close>; and the cookies the server sets, which the session
  keeps.
\<close>

record 'd response =
  status_code :: int
  store_data :: "error + 'd"
  json_ok :: bool
  items_granted :: "nat option"
  json_authId :: "string option"
  url :: string
  url_code :: "string option"
  set_cookies :: cookies

text \<open>\<open>GmailConnector.get_messages\<close> returns the bare list \<open>[]\<close> on an \<open>HttpError\<close>,
  and otherwise a \<open>GmailMessageListResponse\<close>, whose \<open>messages\<close> are kept here as the
  list of their ids, newest first.\<close>

datatype listing = Http_failed | Messages "string list"

record message =
  receiver :: "string option"
  subject :: "string option"

datatype action = Schedule_ping | Schedule_connection_check | Purchase_offer | Run

text \<open>An \<open>Event\<close> of the standard library's \<open>sched\<close>; the positional arguments are
  unused by the connectors and left out.\<close>

record event =
  time :: int
  priority :: int
  sequence :: nat
  action :: action
  kwargs :: "(string \<times> string) list"

text \<open>
  The values the properties of \<open>Config\<close> return. The connectors are modelled for a
  configuration file whose option values are well formed, so that reading a property
  returns a value; how the two scheduling options are read from the file, and what
  happens when they are both set, is modelled in the section on configuration.
\<close>

record config =
  is_self_scheduling :: bool
  allow_scheduling :: bool
  max_delay_scheduling_time :: int
  max_login_attempts :: int

text \<open>
  The connector object. \<open>auth_id\<close> and \<open>gmail_connector\<close> (which may be \<open>None\<close>)
  belong to \<open>EAWebstoreConnector\<close>; the functions of \<open>LotRWebstoreConnector\<close> never
  touch \<open>auth_id\<close> and always have a Gmail connector. \<open>heap\<close> and \<open>seqno\<close> are the
  scheduler's \<open>_queue\<close> and its sequence counter, \<open>session_file\<close> is the content of
  the file \<open>session_filename\<close> (\<open>None\<close> when it does not exist), and \<open>trace\<close> collects
  the effects.
\<close>

record conn =
  config :: config
  email :: string
  session :: cookies
  auth_id :: "string option"
  gmail_connector :: bool
  heap :: "event list"
  seqno :: nat
  session_file :: "cookies option option"
  trace :: "effect list"

text \<open>
  The collaborators, as deterministic oracles. The server answers a request given the
  requests sent before it; the clock and the inbox are read by position, the clock by
  the number of earlier readings and the inbox by the number of earlier listings. Times
  are whole seconds.
\<close>

record 'd env =
  http :: "request list \<Rightarrow> request \<Rightarrow> error + 'd response"
  clock :: "nat \<Rightarrow> int"
  inbox :: "nat \<Rightarrow> listing"
  details :: "string \<Rightarrow> message option"
  stdin :: string

type_synonym 'a outcome = "(error + 'a) \<times> conn"

fun requests :: "effect list \<Rightarrow> request list" where
  "requests [] = []"
| "requests (Http r # es) = r # requests es"
| "requests (e # es) = requests es"

fun listings :: "effect list \<Rightarrow> nat" where
  "listings [] = 0"
| "listings (Gmail_list # es) = Suc (listings es)"
| "listings (e # es) = listings es"

definition emit :: "effect \<Rightarrow> conn \<Rightarrow> conn" where
  "emit e st = st\<lparr>trace := trace st @ [e]\<rparr>"

definition log_msg :: "level \<Rightarrow> string \<Rightarrow> conn \<Rightarrow> conn" where
  "log_msg l msg st = emit (Log l msg) st"

fun clock_reads :: "effect list \<Rightarrow> nat" where
  "clock_reads [] = 0"
| "clock_reads (Clock # es) = Suc (clock_reads es)"
| "clock_reads (e # es) = clock_reads es"

definition now :: "'d env \<Rightarrow> conn \<Rightarrow> int \<times> conn" where
  "now env st = (clock env (clock_reads (trace st)), emit Clock st)"

text \<open>Sequencing: the second computation runs only when the first returned normally.\<close>

definition and_then :: "'a outcome \<Rightarrow> ('a \<Rightarrow> conn \<Rightarrow> 'b outcome) \<Rightarrow> 'b outcome" where
  "and_then m f = (case m of (Inl e, st) \<Rightarrow> (Inl e, st) | (Inr x, st) \<Rightarrow> f x st)"

section \<open>The scheduler\<close>

text \<open>\<open>scheduler.queue\<close>: the events in the order they will run, by time, priority and
  sequence number.\<close>

definition queue :: "conn \<Rightarrow> event list" where
  "queue st = sort_key (\<lambda>e. (time e, priority e, sequence e)) (heap st)"

definition enterabs :: "int \<Rightarrow> int \<Rightarrow> action \<Rightarrow> (string \<times> string) list \<Rightarrow> conn \<Rightarrow> conn" where
  "enterabs t p a kw st =
     st\<lparr>heap := heap st @ [\<lparr>time = t, priority = p, sequence = seqno st, action = a, kwargs = kw\<rparr>],
        seqno := Suc (seqno st)\<rparr>"

definition enter :: "'d env \<Rightarrow> int \<Rightarrow> int \<Rightarrow> action \<Rightarrow> (string \<times> string) list \<Rightarrow> conn \<Rightarrow> conn" where
  "enter env delay p a kw st = (case now env st of (t, st1) \<Rightarrow> enterabs (t + delay) p a kw st1)"

text \<open>\<open>timedelta(seconds=s)\<close> raises \<open>OverflowError\<close> when the number of days leaves
  the range of \<open>timedelta\<close>; the connectors build one for their log messages.\<close>

definition timedelta :: "int \<Rightarrow> conn \<Rightarrow> unit outcome" where
  "timedelta s st =
     (if - 999999999 \<le> s div 86400 \<and> s div 86400 \<le> 999999999 then (Inr (), st)
      else (Inl OverflowError, st))"

definition get_delta :: "'d env \<Rightarrow> conn \<Rightarrow> unit outcome" where
  "get_delta env st =
     (case now env st of (t, st1) \<Rightarrow>
        (case queue st1 of [] \<Rightarrow> (Inl IndexError, st1)
         | e # _ \<Rightarrow> timedelta (time e - t) st1))"

text \<open>The duplicate check of \<open>schedule_purchase\<close>: \<open>item_id in queue_entry.kwargs\<close>
  asks whether \<open>item_id\<close> is a key of the dictionary \<open>kwargs\<close>.\<close>

fun already_scheduled :: "string \<Rightarrow> event list \<Rightarrow> bool" where
  "already_scheduled item_id [] = False"
| "already_scheduled item_id (queue_entry # q) =
     (if action queue_entry \<noteq> Purchase_offer then already_scheduled item_id q
      else if item_id \<in> set (map fst (kwargs queue_entry)) then True
      else already_scheduled item_id q)"

definition LotR_schedule_purchase :: "'d env \<Rightarrow> int \<Rightarrow> string \<Rightarrow> string \<Rightarrow> conn \<Rightarrow> unit outcome" where
  "LotR_schedule_purchase env delay item_id currency_type st =
     (if \<not> is_self_scheduling (config st) \<and> \<not> allow_scheduling (config st) then (Inr (), st)
      else if allow_scheduling (config st) \<and> max_delay_scheduling_time (config st) > 0
              \<and> max_delay_scheduling_time (config st) < delay then (Inr (), st)
      else if already_scheduled item_id (queue st) then
        (Inr (), log_msg WARNING ''Item already scheduled, skipping scheduling of item %s'' st)
      else
        and_then (timedelta delay
               (enter env delay 1 Purchase_offer
                  [(''item_id'', item_id), (''currency_type'', currency_type)] st))
          (\<lambda>_ st1. (Inr (), log_msg INFO ''Successfully scheduled purchase of %s in %s'' st1)))"

definition EA_schedule_purchase :: "'d env \<Rightarrow> int \<Rightarrow> string \<Rightarrow> string \<Rightarrow> conn \<Rightarrow> unit outcome" where
  "EA_schedule_purchase env delay item_id currency_type st =
     (if \<not> is_self_scheduling (config st) \<and> \<not> allow_scheduling (config st) then
        and_then (timedelta delay st)
          (\<lambda>_ st1. (Inr (), log_msg INFO ''Scheduling is deactivated! Item %s will be available in %s'' st1))
      else if allow_scheduling (config st) \<and> max_delay_scheduling_time (config st) > 0
              \<and> max_delay_scheduling_time (config st) < delay then
        and_then (timedelta delay st)
          (\<lambda>_ st1. (Inr (), log_msg INFO ''The delay exceeds the max allowed delay! Item %s will be available in %s'' st1))
      else if already_scheduled item_id (queue st) then
        (Inr (), log_msg WARNING ''Item already scheduled, skipping scheduling of item %s'' st)
      else
        and_then (timedelta delay
               (enter env delay 1 Purchase_offer
                  [(''item_id'', item_id), (''currency_type'', currency_type)] st))
          (\<lambda>_ st1. (Inr (), log_msg INFO ''Successfully scheduled purchase of %s in %s'' st1)))"

text \<open>\<open>schedule_run\<close> calls \<open>self.run()\<close> when \<open>run_directly\<close> holds; the method is
  passed in as \<open>run\<close>, and the result type \<open>'r\<close> is the one of \<open>run\<close>, which
  \<open>ret\<close> reaches from a normal outcome.\<close>

definition LotR_schedule_run ::
  "'d env \<Rightarrow> (unit outcome \<Rightarrow> 'r) \<Rightarrow> (conn \<Rightarrow> 'r) \<Rightarrow> bool \<Rightarrow> conn \<Rightarrow> 'r" where
  "LotR_schedule_run env ret run run_directly st =
     (if \<not> is_self_scheduling (config st) \<and> \<not> allow_scheduling (config st) then ret (Inr (), st)
      else if run_directly then run st
      else
        (case find (\<lambda>queue_entry. action queue_entry = Purchase_offer) (queue st) of
           Some purchase_queue \<Rightarrow>
             ret (and_then (get_delta env (enterabs (time purchase_queue + 5) 1 Run [] st))
               (\<lambda>_ st1. (Inr (),
                  log_msg INFO ''Successfully scheduled run after the next purchase (in %s)'' st1)))
         | None \<Rightarrow>
             ret (Inr (),
               log_msg INFO ''Successfully scheduled run in %s''
                 (enter env 3600 1 Run []
                    (log_msg INFO ''No purchase found to schedule run...'' st)))))"

definition EA_schedule_run ::
  "'d env \<Rightarrow> (unit outcome \<Rightarrow> 'r) \<Rightarrow> (conn \<Rightarrow> 'r) \<Rightarrow> bool \<Rightarrow> conn \<Rightarrow> 'r" where
  "EA_schedule_run env ret run run_directly st =
     (if \<not> is_self_scheduling (config st) \<and> \<not> allow_scheduling (config st) then ret (Inr (), st)
      else if run_directly then run st
      else
        (case find (\<lambda>queue_entry. action queue_entry = Purchase_offer) (queue st) of
           Some purchase_queue \<Rightarrow>
             ret (and_then (get_delta env (enterabs (time purchase_queue + 5) 1 Run [] st))
               (\<lambda>_ st1. (Inr (),
                  log_msg INFO ''Successfully scheduled run after the next purchase (in %s)'' st1)))
         | None \<Rightarrow>
             if allow_scheduling (config st) then ret (Inr (), st)
             else
               ret (Inr (),
                 log_msg INFO ''Successfully scheduled run in %s''
                   (enter env 3600 1 Run []
                      (log_msg INFO ''No purchase found to schedule run...'' st)))))"

definition schedule_ping :: "'d env \<Rightarrow> conn \<Rightarrow> unit outcome" where
  "schedule_ping env st =
     (if \<not> is_self_scheduling (config st) then (Inr (), st)
      else
        and_then
          (if heap st \<noteq> [] then
             and_then (get_delta env (log_msg INFO ''Current queue size: %i'' st))
               (\<lambda>_ st1. (Inr (), log_msg INFO ''Next run in %s'' st1))
           else (Inr (), log_msg INFO ''Current queue size: %i'' st))
          (\<lambda>_ st2. (Inr (), enter env 60 1 Schedule_ping [] st2)))"

section \<open>Requests\<close>

text \<open>A request through the session: the server sees the requests sent before; a
  transport failure is raised by \<open>requests\<close>; the cookies of the answer go to the session.\<close>

definition send :: "'d env \<Rightarrow> request \<Rightarrow> conn \<Rightarrow> 'd response outcome" where
  "send env rq st =
     (case http env (requests (trace st)) rq of
        Inl e \<Rightarrow> (Inl e, emit (Http rq) st)
      | Inr response \<Rightarrow>
          (Inr response, (emit (Http rq) st)\<lparr>session := set_cookies response @ session st\<rparr>))"

text \<open>\<open>schedule_connection_check\<close> catches the two transport exceptions only, and its
  \<open>finally\<close> clause enqueues the next check on every path.\<close>

definition schedule_connection_check :: "'d env \<Rightarrow> conn \<Rightarrow> unit outcome" where
  "schedule_connection_check env st =
     (if \<not> is_self_scheduling (config st) then (Inr (), st)
      else
        (case send env Get_google st of
           (Inr _, st1) \<Rightarrow>
             (Inr (), enter env 1800 1 Schedule_connection_check []
                        (log_msg INFO ''Successfully pinged %s'' st1))
         | (Inl TransportError, st1) \<Rightarrow>
             (Inr (), enter env 1800 1 Schedule_connection_check []
                        (log_msg WARNING ''No internet connection established! Unable to reach %s'' st1))
         | (Inl e, st1) \<Rightarrow>
             (Inl e, enter env 1800 1 Schedule_connection_check [] st1)))"

text \<open>\<open>get_offers\<close> of both connectors. The base connector wraps the body with
  \<open>_wrap_offers\<close>, which its subclass for the Star Wars store overrides with that store's
  \<open>StoreData\<close>; the Lord of the Rings connector logs the body as well.\<close>

definition LotR_get_offers :: "'d env \<Rightarrow> conn \<Rightarrow> 'd option outcome" where
  "LotR_get_offers env st =
     and_then (send env Get_offers (log_msg INFO ''Get offers for account %s'' st))
       (\<lambda>response st1.
          let st2 = log_msg DEBUG ''[get_offers - %s] Response Body: %s''
                      (log_msg DEBUG ''[get_offers - %s] Response Status Code: %i'' st1)
          in if status_code response = 200 then
               (case store_data response of
                  Inl e \<Rightarrow> (Inl e, st2)
                | Inr d \<Rightarrow> (Inr (Some d), st2))
             else if status_code response = 401 then (Inr None, st2)
             else (Inl (Unhandled_Status (status_code response)), st2))"

definition EA_get_offers :: "'d env \<Rightarrow> conn \<Rightarrow> 'd option outcome" where
  "EA_get_offers env st =
     and_then (send env Get_offers (log_msg INFO ''Get offers for account %s'' st))
       (\<lambda>response st1.
          let st2 = log_msg DEBUG ''[get_offers - %s] Response Status Code: %i'' st1
          in if status_code response = 200 then
               (case store_data response of
                  Inl e \<Rightarrow> (Inl e, st2)
                | Inr d \<Rightarrow> (Inr (Some d), st2))
             else if status_code response = 401 then (Inr None, st2)
             else (Inl (Unhandled_Status (status_code response)), st2))"

text \<open>\<open>purchase_offer\<close>, the same in both connectors: the JSON body on 200 (the model
  returns the response it belongs to), \<open>None\<close> on 401, an exception otherwise.\<close>

definition purchase_offer :: "'d env \<Rightarrow> string \<Rightarrow> string \<Rightarrow> conn \<Rightarrow> 'd response option outcome" where
  "purchase_offer env item_id currency_type st =
     and_then (send env (Post_purchase item_id currency_type)
                 (log_msg INFO ''Purchase item %s for account %s'' st))
       (\<lambda>response st1.
          let st2 = log_msg DEBUG ''[purchase_offer - %s] Response Body: %s''
                     (log_msg DEBUG ''[purchase_offer - %s] Response Status Code: %i''
                       (log_msg DEBUG ''[purchase_offer - %s] Request Body: %s'' st1))
          in if status_code response = 200 then
               (if json_ok response then (Inr (Some response), st2)
                else (Inl (ValueError ''JSONDecodeError''), st2))
             else if status_code response = 401 then (Inr None, st2)
             else (Inl (Unhandled_Status (status_code response)), st2))"

section \<open>The session file\<close>

text \<open>The file holds a pickled session: \<open>Some s\<close> when \<open>pickle.load\<close> reads the
  session \<open>s\<close> from it, \<open>None\<close> when its content is not a pickle.\<close>

definition load_session :: "level \<Rightarrow> conn \<Rightarrow> unit outcome" where
  "load_session l st =
     (case session_file st of
        None \<Rightarrow> (Inl FileNotFoundError, st)
      | Some None \<Rightarrow> (Inl PickleError, emit Read_session_file st)
      | Some (Some s) \<Rightarrow>
          (Inr (), log_msg l ''Successfully loaded session from file %s''
                     ((emit Read_session_file st)\<lparr>session := s\<rparr>)))"

definition save_session :: "level \<Rightarrow> conn \<Rightarrow> unit outcome" where
  "save_session l st =
     (Inr (), log_msg l ''Successfully saved session to file %s''
                ((emit Write_session_file st)\<lparr>session_file := Some (Some (session st))\<rparr>))"

text \<open>The constructor of the Lord of the Rings connector: a fresh session, an empty
  scheduler, the session file loaded when it exists, then the two standing tasks.
  \<open>file\<close> is the session file found on disk.\<close>

definition LotR_init :: "'d env \<Rightarrow> config \<Rightarrow> string \<Rightarrow> cookies option option \<Rightarrow> unit outcome" where
  "LotR_init env cfg mail file =
     (let st = \<lparr>config = cfg, email = mail, session = [], auth_id = None,
                gmail_connector = True, heap = [], seqno = 0, session_file = file, trace = []\<rparr>
      in and_then (if file \<noteq> None then load_session INFO st else (Inr (), st))
           (\<lambda>_ st1. and_then (schedule_ping env st1)
              (\<lambda>_ st2. schedule_connection_check env st2)))"

text \<open>The constructor of the base connector does not get as far: after the session and
  the scheduler it reads \<open>self.config.webstore_log_level\<close>, a property that \<open>Config\<close> does
  not have, and raises before it sets \<open>auth_id\<close>, loads the session file or enqueues
  the standing tasks.\<close>

definition EA_init :: "config \<Rightarrow> string \<Rightarrow> bool \<Rightarrow> cookies option option \<Rightarrow> unit outcome" where
  "EA_init cfg mail gmail file =
     (let st = \<lparr>config = cfg, email = mail, session = [], auth_id = None,
                gmail_connector = gmail, heap = [], seqno = 0, session_file = file, trace = []\<rparr>
      in (Inl AttributeError, if gmail then st else log_msg ERROR ''%s'' st))"

section \<open>Logging in to the Lord of the Rings store\<close>

definition request_otc :: "'d env \<Rightarrow> conn \<Rightarrow> unit outcome" where
  "request_otc env st =
     and_then (send env (Post_request_otc (email st)) st)
       (\<lambda>response st1.
          let st2 = log_msg DEBUG ''[request_otc - %s] Response Body: %s''
                     (log_msg DEBUG ''[request_otc - %s] Response Status Code: %i''
                       (log_msg DEBUG ''[request_otc - %s] Request Body: %s'' st1))
          in if status_code response \<noteq> 200 then (Inl (Unhandled_Status (status_code response)), st2)
             else (Inr (), st2))"

definition verify_otc :: "'d env \<Rightarrow> string \<Rightarrow> conn \<Rightarrow> unit outcome" where
  "verify_otc env code st =
     and_then (send env (Post_code_check (email st) code) st)
       (\<lambda>response st1.
          let st2 = log_msg DEBUG ''[verify_otc - %s] Response Body: %s''
                     (log_msg DEBUG ''[verify_otc - %s] Response Status Code: %i''
                       (log_msg DEBUG ''[verify_otc - %s] Request Body: %s'' st1))
          in if status_code response \<noteq> 200 then (Inl (Unhandled_Status (status_code response)), st2)
             else save_session INFO st2)"

text \<open>
  \<open>EA_SUBJECT_PATTERN.match\<close>, for the pattern
  \<^verbatim>\<open>^Verification Code For EA[^0-9]*([0-9]+)$\<close>: after the fixed words, characters
  that are not digits, then digits up to the end of the subject, or up to a newline that
  ends it. The result is group 1.
\<close>

definition is_digit :: "char \<Rightarrow> bool" where
  "is_digit c = (c \<in> set ''0123456789'')"

definition EA_SUBJECT_PATTERN :: "string \<Rightarrow> string option" where
  "EA_SUBJECT_PATTERN s =
     (if prefix ''Verification Code For EA'' s then
        (let rest = dropWhile (\<lambda>c. \<not> is_digit c) (drop 24 s);
             digits = takeWhile is_digit rest;
             after = dropWhile is_digit rest
         in if digits \<noteq> [] \<and> (after = [] \<or> after = [CHR 0x0A]) then Some digits else None)
      else None)"

text \<open>What \<open>get_code_from_message\<close> makes of the headers of a message.\<close>

definition code_in :: "string \<Rightarrow> message \<Rightarrow> string option" where
  "code_in mail message =
     (case (receiver message, subject message) of
        (Some r, Some s) \<Rightarrow>
          if r = [] \<or> s = [] then None
          else if \<not> sublist mail r then None
          else EA_SUBJECT_PATTERN s
      | _ \<Rightarrow> None)"

text \<open>\<open>get_message_details\<close> returns \<open>None\<close> on an \<open>HttpError\<close>, and reading a header
  of \<open>None\<close> raises.\<close>

definition LotR_get_code_from_message :: "'d env \<Rightarrow> string \<Rightarrow> conn \<Rightarrow> string option outcome" where
  "LotR_get_code_from_message env message_id st =
     (case details env message_id of
        None \<Rightarrow> (Inl AttributeError, emit (Gmail_get message_id) st)
      | Some message \<Rightarrow> (Inr (code_in (email st) message), emit (Gmail_get message_id) st))"

definition get_messages :: "'d env \<Rightarrow> conn \<Rightarrow> listing \<times> conn" where
  "get_messages env st = (inbox env (listings (trace st)), emit Gmail_list st)"

text \<open>\<open>l.messages[0].id\<close> and \<open>l.messages\<close>.\<close>

definition first_id :: "listing \<Rightarrow> error + string" where
  "first_id l =
     (case l of Http_failed \<Rightarrow> Inl AttributeError
      | Messages [] \<Rightarrow> Inl IndexError
      | Messages (m # _) \<Rightarrow> Inr m)"

definition messages :: "listing \<Rightarrow> string list" where
  "messages l = (case l of Http_failed \<Rightarrow> [] | Messages ms \<Rightarrow> ms)"

text \<open>The inner loop of \<open>login\<close>: the entries of the new listing, newest first, up to
  the first id of the previous listing or the first code.\<close>

fun LotR_scan :: "'d env \<Rightarrow> string \<Rightarrow> string list \<Rightarrow> conn \<Rightarrow> string option outcome" where
  "LotR_scan env pre_id [] st = (Inr None, st)"
| "LotR_scan env pre_id (entry # entries) st =
     (if entry = pre_id then (Inr None, st)
      else
        (case LotR_get_code_from_message env entry st of
           (Inl e, st1) \<Rightarrow> (Inl e, st1)
         | (Inr (Some code), st1) \<Rightarrow> (Inr (Some code), st1)
         | (Inr None, st1) \<Rightarrow> LotR_scan env pre_id entries st1))"

text \<open>The outer loop of \<open>login\<close>, by the number of attempts left.\<close>

fun LotR_poll :: "'d env \<Rightarrow> nat \<Rightarrow> listing \<Rightarrow> conn \<Rightarrow> string option outcome" where
  "LotR_poll env 0 pre_messages_list st = (Inr None, st)"
| "LotR_poll env (Suc n) pre_messages_list st =
     (case get_messages env (emit Sleep st) of
        (new_messages_list, st1) \<Rightarrow>
          (case first_id new_messages_list of
             Inl e \<Rightarrow> (Inl e, st1)
           | Inr new_id \<Rightarrow>
               (case first_id pre_messages_list of
                  Inl e \<Rightarrow> (Inl e, st1)
                | Inr pre_id \<Rightarrow>
                    if new_id = pre_id then LotR_poll env n pre_messages_list st1
                    else
                      (case LotR_scan env pre_id (messages new_messages_list) st1 of
                         (Inl e, st2) \<Rightarrow> (Inl e, st2)
                       | (Inr (Some code), st2) \<Rightarrow> (Inr (Some code), st2)
                       | (Inr None, st2) \<Rightarrow> LotR_poll env n new_messages_list st2))))"

definition code_not_found :: error where
  "code_not_found = ValueError ''The verification code was not found in the inbox!''"

definition LotR_login :: "'d env \<Rightarrow> conn \<Rightarrow> unit outcome" where
  "LotR_login env st =
     (case get_messages env (log_msg INFO ''Perform login for account %s'' st) of
        (pre_messages_list, st1) \<Rightarrow>
          and_then (request_otc env st1)
            (\<lambda>_ st2.
               and_then (LotR_poll env (nat (max_login_attempts (config st2))) pre_messages_list st2)
                 (\<lambda>code st3.
                    case code of
                      None \<Rightarrow> (Inl code_not_found, st3)
                    | Some c \<Rightarrow> verify_otc env c st3)))"

section \<open>The run cycle of the Lord of the Rings store\<close>

record offer_price =
  purchase_currency :: string
  purchase_amount :: rat

record lotr_offer =
  offer_id :: string
  price :: offer_price
  is_free_offer :: bool
  purchase_cooldown_left :: int

record web_store_offer =
  offer :: lotr_offer
  title :: string

record lotr_store_data =
  web_store_offers :: "web_store_offer list"

text \<open>One log line for each granted item.\<close>

fun granted :: "nat \<Rightarrow> conn \<Rightarrow> conn" where
  "granted 0 st = st"
| "granted (Suc n) st = granted n (log_msg INFO '' ItemGranted: %s (%s/%s)'' st)"

text \<open>The loop of \<open>run\<close> over the offers; \<open>purchases\<close> counts the purchases of the cycle.\<close>

fun LotR_offers_loop ::
  "lotr_store_data env \<Rightarrow> web_store_offer list \<Rightarrow> nat \<Rightarrow> conn \<Rightarrow> nat outcome" where
  "LotR_offers_loop env [] purchases st = (Inr purchases, st)"
| "LotR_offers_loop env (ws_offer # rest) purchases st =
     (if \<not> is_free_offer (offer ws_offer) then LotR_offers_loop env rest purchases st
      else if purchase_amount (price (offer ws_offer)) > 0 then
        LotR_offers_loop env rest purchases
          (log_msg WARNING ''Free Offer without Free price found! Please investigate...''
             (log_msg INFO ''FreeOffer found: %s'' st))
      else if purchase_cooldown_left (offer ws_offer) \<noteq> 0 then
        (case LotR_schedule_purchase env (purchase_cooldown_left (offer ws_offer))
                (offer_id (offer ws_offer)) (purchase_currency (price (offer ws_offer)))
                (log_msg INFO ''FreeOffer found: %s'' st) of
           (Inl e, st1) \<Rightarrow> (Inl e, st1)
         | (Inr _, st1) \<Rightarrow> LotR_offers_loop env rest purchases st1)
      else
        (case purchase_offer env (offer_id (offer ws_offer))
                (purchase_currency (price (offer ws_offer)))
                (log_msg INFO ''FreeOffer found: %s'' st) of
           (Inl e, st1) \<Rightarrow> (Inl e, st1)
         | (Inr None, st1) \<Rightarrow> (Inl TypeError, st1)
         | (Inr (Some response), st1) \<Rightarrow>
             (case items_granted response of
                None \<Rightarrow> (Inl KeyError, st1)
              | Some k \<Rightarrow> LotR_offers_loop env rest (Suc purchases) (granted k st1))))"

text \<open>\<open>run\<close> up to its last line: the offers are fetched, once more after a login when
  the first answer was \<open>None\<close>, and handled. The result is \<open>purchases > 0\<close>.\<close>

definition LotR_run_cycle :: "lotr_store_data env \<Rightarrow> conn \<Rightarrow> bool outcome" where
  "LotR_run_cycle env st =
     and_then (LotR_get_offers env (log_msg INFO ''Getting offers...'' st))
       (\<lambda>offers st1.
          and_then
            (case offers of
               None \<Rightarrow> and_then (LotR_login env st1) (\<lambda>_ st2. LotR_get_offers env st2)
             | Some _ \<Rightarrow> (Inr offers, st1))
            (\<lambda>offers st3.
               case offers of
                 None \<Rightarrow> (Inl AttributeError, st3)
               | Some data \<Rightarrow>
                   and_then (LotR_offers_loop env (web_store_offers data) 0 st3)
                     (\<lambda>purchases st4. (Inr (purchases > 0), st4))))"

text \<open>\<open>run\<close>: the cycle, then \<open>schedule_run\<close>, which may call \<open>run\<close> again at once and
  without bound; the first argument bounds the number of cycles, and \<open>None\<close> says that
  the bound was reached.\<close>

fun LotR_run :: "nat \<Rightarrow> lotr_store_data env \<Rightarrow> conn \<Rightarrow> unit outcome option" where
  "LotR_run 0 env st = None"
| "LotR_run (Suc n) env st =
     (case LotR_run_cycle env st of
        (Inl e, st1) \<Rightarrow> Some (Inl e, st1)
      | (Inr run_directly, st1) \<Rightarrow> LotR_schedule_run env Some (LotR_run n env) run_directly st1)"

section \<open>Logging in through the EA account pages\<close>

text \<open>The base connector may be without a Gmail connector; then there is no inbox to
  read.\<close>

definition EA_get_code_from_message :: "'d env \<Rightarrow> string \<Rightarrow> conn \<Rightarrow> string option outcome" where
  "EA_get_code_from_message env message_id st =
     (if \<not> gmail_connector st then (Inr None, st)
      else LotR_get_code_from_message env message_id st)"

definition EA_get_messages :: "'d env \<Rightarrow> conn \<Rightarrow> listing option \<times> conn" where
  "EA_get_messages env st =
     (if \<not> gmail_connector st then (None, st)
      else (case get_messages env (log_msg DEBUG ''Get messages...'' st) of
              (l, st1) \<Rightarrow> (Some l, st1)))"

fun EA_scan :: "'d env \<Rightarrow> string \<Rightarrow> string list \<Rightarrow> conn \<Rightarrow> string option outcome" where
  "EA_scan env pre_id [] st = (Inr None, st)"
| "EA_scan env pre_id (entry # entries) st =
     (if entry = pre_id then (Inr None, st)
      else
        (case EA_get_code_from_message env entry st of
           (Inl e, st1) \<Rightarrow> (Inl e, st1)
         | (Inr (Some code), st1) \<Rightarrow> (Inr (Some code), st1)
         | (Inr None, st1) \<Rightarrow> EA_scan env pre_id entries st1))"

text \<open>The loop of \<open>_get_code_from_gmail_account\<close>. A listing that is \<open>None\<close> or the bare
  \<open>[]\<close> is skipped; a \<open>GmailMessageListResponse\<close> is never falsy, also with no messages.\<close>

fun EA_poll :: "'d env \<Rightarrow> nat \<Rightarrow> listing \<Rightarrow> conn \<Rightarrow> string option outcome" where
  "EA_poll env 0 pre_messages_list st = (Inr None, st)"
| "EA_poll env (Suc n) pre_messages_list st =
     (case EA_get_messages env (emit Sleep st) of
        (None, st1) \<Rightarrow>
          EA_poll env n pre_messages_list (log_msg DEBUG ''No messages found, retrying...'' st1)
      | (Some Http_failed, st1) \<Rightarrow>
          EA_poll env n pre_messages_list (log_msg DEBUG ''No messages found, retrying...'' st1)
      | (Some new_messages_list, st1) \<Rightarrow>
          (case first_id new_messages_list of
             Inl e \<Rightarrow> (Inl e, st1)
           | Inr new_id \<Rightarrow>
               (case first_id pre_messages_list of
                  Inl e \<Rightarrow> (Inl e, st1)
                | Inr pre_id \<Rightarrow>
                    if new_id = pre_id then EA_poll env n pre_messages_list st1
                    else
                      (case EA_scan env pre_id (messages new_messages_list) st1 of
                         (Inl e, st2) \<Rightarrow> (Inl e, st2)
                       | (Inr (Some code), st2) \<Rightarrow> (Inr (Some code), st2)
                       | (Inr None, st2) \<Rightarrow> EA_poll env n new_messages_list st2))))"

definition EA_get_code_from_gmail_account ::
  "'d env \<Rightarrow> listing option \<Rightarrow> conn \<Rightarrow> string option outcome" where
  "EA_get_code_from_gmail_account env pre_messages_list st =
     (case pre_messages_list of
        None \<Rightarrow> (Inr None, st)
      | Some pre \<Rightarrow>
          if \<not> gmail_connector st then (Inr None, st)
          else EA_poll env (nat (max_login_attempts (config st))) pre
                 (log_msg DEBUG ''Get messages...'' st))"

text \<open>\<open>_perform_login\<close>: the signin page, the email, the code from the inbox or, when
  there is none, from the operator at the terminal, and the code of the redirect.\<close>

definition EA_perform_login :: "'d env \<Rightarrow> string \<Rightarrow> conn \<Rightarrow> string outcome" where
  "EA_perform_login env signin st =
     and_then (send env (Get_signin signin) st)
       (\<lambda>response st1.
          if status_code response \<noteq> 200 then (Inl (Exception ''Failed to get signin page''), st1)
          else
            (case EA_get_messages env (log_msg DEBUG ''Submit email...'' st1) of
               (pre_message_list, st2) \<Rightarrow>
                 and_then (send env (Post_email signin (email st2)) st2)
                   (\<lambda>response st3.
                      if status_code response \<noteq> 200 then
                        (Inl (Exception ''Failed to submit email''), st3)
                      else
                        and_then (EA_get_code_from_gmail_account env pre_message_list st3)
                          (\<lambda>code st4.
                             and_then
                               (case code of
                                  Some c \<Rightarrow> (Inr c, st4)
                                | None \<Rightarrow>
                                    (Inr (stdin env),
                                     emit (Input ''Enter the code: '')
                                       (emit (Print ''Failed to get code from Gmail account.'') st4)))
                               (\<lambda>code st5.
                                  and_then (send env (Post_one_time_code (url response) code) st5)
                                    (\<lambda>response st6.
                                       if status_code response \<noteq> 200 then
                                         (Inl (Exception ''Failed to submit code''), st6)
                                       else
                                         (case url_code response of
                                            None \<Rightarrow>
                                              (Inl (Exception ''Failed to get code in redirect location''), st6)
                                          | Some c \<Rightarrow> (Inr c, st6))))))))"

definition EA_finish_login :: "'d env \<Rightarrow> string \<Rightarrow> conn \<Rightarrow> unit outcome" where
  "EA_finish_login env code st =
     and_then (send env (Post_access_code code) st)
       (\<lambda>finish st1.
          if \<not> json_ok finish then (Inl (ValueError ''JSONDecodeError''), st1)
          else
            (case json_authId finish of
               None \<Rightarrow> (Inl KeyError, st1)
             | Some a \<Rightarrow> (Inr (), st1\<lparr>auth_id := Some a\<rparr>)))"

text \<open>\<open>self.auth_id\<close> as a condition: neither \<open>None\<close> nor the empty string.\<close>

definition truthy :: "string option \<Rightarrow> bool" where
  "truthy a = (case a of None \<Rightarrow> False | Some s \<Rightarrow> s \<noteq> [])"

definition EA_login :: "'d env \<Rightarrow> bool \<Rightarrow> conn \<Rightarrow> unit outcome" where
  "EA_login env force_login st =
     (if \<not> force_login \<and> truthy (auth_id st) then (Inr (), st)
      else
        and_then (send env Get_accounts_auth
                    (log_msg DEBUG ''Send auth0 request...''
                       (log_msg INFO ''Perform login for account %s'' st)))
          (\<lambda>response st1.
             if status_code response \<noteq> 200 then (Inl (Exception ''Failed to get accounts URL''), st1)
             else
               (case url_code response of
                  Some code \<Rightarrow>
                    EA_finish_login env code
                      (log_msg DEBUG ''Code found in URL, skipping login process...'' st1)
                | None \<Rightarrow>
                    and_then (EA_perform_login env (url response)
                                (log_msg DEBUG ''Perform login process...'' st1))
                      (\<lambda>code st2.
                         and_then (EA_finish_login env code st2)
                           (\<lambda>_ st3. save_session DEBUG st3)))))"

section \<open>The run cycle of the Star Wars store\<close>

record swgoh_offer =
  currencyType :: string
  swgoh_price :: int
  availableAtEpoch :: "int option"

record store_item =
  store_item_id :: string
  name :: string
  offers :: "swgoh_offer list"
  startTime :: int
  endTime :: int

record swgoh_store_data =
  items :: "store_item list"

text \<open>Times are whole seconds since the epoch. \<open>datetime.fromtimestamp\<close> raises outside
  the years 1 to 9999.\<close>

definition fromtimestamp :: "int \<Rightarrow> error + int" where
  "fromtimestamp t =
     (if - 62135596800 \<le> t \<and> t \<le> 253402300799 then Inr t else Inl OverflowError)"

text \<open>The loop of \<open>_handle_offers\<close> over the items. \<open>delay.seconds\<close> is the seconds
  field of the \<open>timedelta\<close>, between 0 and 86399.\<close>

fun Swgoh_items_loop ::
  "swgoh_store_data env \<Rightarrow> int \<Rightarrow> store_item list \<Rightarrow> nat \<Rightarrow> conn \<Rightarrow> nat outcome" where
  "Swgoh_items_loop env now_utc [] purchases st = (Inr purchases, st)"
| "Swgoh_items_loop env now_utc (item # rest) purchases st =
     (case filter (\<lambda>an_offer. currencyType an_offer = ''FREE'') (offers item) of
        [] \<Rightarrow> Swgoh_items_loop env now_utc rest purchases st
      | free_offer # _ \<Rightarrow>
          (case fromtimestamp (startTime item) of
             Inl e \<Rightarrow> (Inl e, st)
           | Inr start_time \<Rightarrow>
          (case fromtimestamp (endTime item) of
             Inl e \<Rightarrow> (Inl e, st)
           | Inr end_time \<Rightarrow>
          (case (case availableAtEpoch free_offer of
                   None \<Rightarrow> Inr None
                 | Some a \<Rightarrow> (case fromtimestamp a of Inl e \<Rightarrow> Inl e | Inr t \<Rightarrow> Inr (Some t))) of
             Inl e \<Rightarrow> (Inl e, st)
           | Inr available_at \<Rightarrow>
               if now_utc < start_time then
                 Swgoh_items_loop env now_utc rest purchases
                   (log_msg INFO ''%s will be available at %s'' st)
               else if end_time < now_utc then
                 Swgoh_items_loop env now_utc rest purchases
                   (log_msg INFO ''%s alread expired at %s'' st)
               else if (case available_at of None \<Rightarrow> True | Some a \<Rightarrow> now_utc < a) then
                 (case available_at of
                    None \<Rightarrow> (Inl TypeError, st)
                  | Some a \<Rightarrow>
                      (case EA_schedule_purchase env ((a - now_utc) mod 86400) (store_item_id item)
                              (currencyType free_offer) st of
                         (Inl e, st1) \<Rightarrow> (Inl e, st1)
                       | (Inr _, st1) \<Rightarrow> Swgoh_items_loop env now_utc rest purchases st1))
               else
                 (case purchase_offer env (store_item_id item) (currencyType free_offer)
                         (log_msg INFO ''FreeOffer found: %s'' st) of
                    (Inl e, st1) \<Rightarrow> (Inl e, st1)
                  | (Inr _, st1) \<Rightarrow> Swgoh_items_loop env now_utc rest (Suc purchases) st1)))))"

definition Swgoh_handle_offers ::
  "swgoh_store_data env \<Rightarrow> swgoh_store_data option \<Rightarrow> conn \<Rightarrow> bool outcome" where
  "Swgoh_handle_offers env offers_opt st =
     (case now env st of
        (now_utc, st1) \<Rightarrow>
          (case offers_opt of
             None \<Rightarrow> (Inl AttributeError, st1)
           | Some data \<Rightarrow>
               and_then (Swgoh_items_loop env now_utc (items data) 0 st1)
                 (\<lambda>purchases st2. (Inr (purchases > 0), st2))))"

text \<open>\<open>run\<close> of the base connector up to its last line, with \<open>_handle_offers\<close> of the
  Star Wars store, and \<open>run\<close> itself, bounded as for the other store.\<close>

definition Swgoh_run_cycle :: "swgoh_store_data env \<Rightarrow> conn \<Rightarrow> bool outcome" where
  "Swgoh_run_cycle env st =
     and_then (EA_login env False st)
       (\<lambda>_ st1.
          and_then (EA_get_offers env (log_msg INFO ''Getting offers...'' st1))
            (\<lambda>offers_opt st2. Swgoh_handle_offers env offers_opt st2))"

fun Swgoh_run :: "nat \<Rightarrow> swgoh_store_data env \<Rightarrow> conn \<Rightarrow> unit outcome option" where
  "Swgoh_run 0 env st = None"
| "Swgoh_run (Suc n) env st =
     (case Swgoh_run_cycle env st of
        (Inl e, st1) \<Rightarrow> Some (Inl e, st1)
      | (Inr run_directly, st1) \<Rightarrow> EA_schedule_run env Some (Swgoh_run n env) run_directly st1)"

section \<open>Configuration\<close>

text \<open>
  A \<open>ConfigParser\<close> after \<open>read\<close>, as the raw value it holds for a section and an option.
  \<open>getboolean\<close> with a fallback returns the fallback for a missing option and raises
  \<open>ValueError\<close> for a value that is no boolean word.
\<close>

type_synonym ini = "string \<times> string \<Rightarrow> string option"

record Config =
  file_path :: string
  parser :: ini

definition lower :: "string \<Rightarrow> string" where
  "lower s =
     map (\<lambda>c. case map_of (zip ''ABCDEFGHIJKLMNOPQRSTUVWXYZ'' ''abcdefghijklmnopqrstuvwxyz'') c of
                 None \<Rightarrow> c | Some l \<Rightarrow> l) s"

definition getboolean :: "ini \<Rightarrow> string \<Rightarrow> string \<Rightarrow> bool \<Rightarrow> error + bool" where
  "getboolean p section_name option_name fallback =
     (case p (section_name, option_name) of
        None \<Rightarrow> Inr fallback
      | Some v \<Rightarrow>
          if lower v \<in> set [''1'', ''yes'', ''true'', ''on''] then Inr True
          else if lower v \<in> set [''0'', ''no'', ''false'', ''off''] then Inr False
          else Inl (ValueError ''Not a boolean''))"

definition Config_is_self_scheduling :: "Config \<Rightarrow> error + bool" where
  "Config_is_self_scheduling c = getboolean (parser c) ''General'' ''script_is_self_scheduling'' False"

definition Config_allow_scheduling :: "Config \<Rightarrow> error + bool" where
  "Config_allow_scheduling c = getboolean (parser c) ''General'' ''allow_scheduling'' False"

text \<open>\<open>valiate\<close>: the second property is read only when the first is true.\<close>

definition valiate :: "Config \<Rightarrow> error + unit" where
  "valiate c =
     (case Config_is_self_scheduling c of
        Inl e \<Rightarrow> Inl e
      | Inr False \<Rightarrow> Inr ()
      | Inr True \<Rightarrow>
          (case Config_allow_scheduling c of
             Inl e \<Rightarrow> Inl e
           | Inr True \<Rightarrow> Inl SchedulingConflictError
           | Inr False \<Rightarrow> Inr ()))"

text \<open>The argument of \<open>load_config\<close>: a \<open>Config\<close>, a path, or anything else. \<open>read_file\<close>
  is \<open>ConfigParser.read\<close> on the files of the machine; it raises on a file that is not
  in the format.\<close>

datatype config_arg = Instance Config | Path string | Other

definition load_config :: "(string \<Rightarrow> error + ini) \<Rightarrow> config_arg \<Rightarrow> error + Config option" where
  "load_config read_file arg =
     (case arg of
        Instance c \<Rightarrow> Inr (Some c)
      | Other \<Rightarrow> Inr None
      | Path p \<Rightarrow>
          (case read_file p of
             Inl e \<Rightarrow> Inl e
           | Inr i \<Rightarrow>
               (case valiate \<lparr>file_path = p, parser = i\<rparr> of
                  Inl e \<Rightarrow> Inl e
                | Inr _ \<Rightarrow> Inr (Some \<lparr>file_path = p, parser = i\<rparr>))))"

section \<open>Example inputs\<close>

text \<open>A server answer with a status and nothing else, a machine without network whose
  clock stands at 1000, the three scheduling modes, and a connector just constructed.\<close>

definition plain_response :: "int \<Rightarrow> 'd response" where
  "plain_response n =
     \<lparr>status_code = n, store_data = Inl KeyError, json_ok = False, items_granted = None,
      json_authId = None, url = [], url_code = None, set_cookies = []\<rparr>"

definition offline_env :: "'d env" where
  "offline_env =
     \<lparr>http = (\<lambda>_ _. Inl TransportError), clock = (\<lambda>_. 1000), inbox = (\<lambda>_. Messages []),
      details = (\<lambda>_. None), stdin = []\<rparr>"

definition manual_cfg :: config where
  "manual_cfg = \<lparr>is_self_scheduling = False, allow_scheduling = False,
     max_delay_scheduling_time = 0, max_login_attempts = 10\<rparr>"

definition self_cfg :: config where
  "self_cfg = \<lparr>is_self_scheduling = True, allow_scheduling = False,
     max_delay_scheduling_time = 0, max_login_attempts = 10\<rparr>"

definition delay_cfg :: config where
  "delay_cfg = \<lparr>is_self_scheduling = False, allow_scheduling = True,
     max_delay_scheduling_time = 100, max_login_attempts = 10\<rparr>"

definition fresh_conn :: "config \<Rightarrow> conn" where
  "fresh_conn cfg =
     \<lparr>config = cfg, email = ''me@example.com'', session = [], auth_id = None,
      gmail_connector = True, heap = [], seqno = 0, session_file = None, trace = []\<rparr>"

text \<open>The Purchase tasks in the queue for an item, as \<open>schedule_purchase\<close> enqueues them.\<close>

definition purchase_tasks :: "string \<Rightarrow> conn \<Rightarrow> event list" where
  "purchase_tasks item st =
     filter (\<lambda>e. action e = Purchase_offer \<and> map_of (kwargs e) ''item_id'' = Some item) (queue st)"

text \<open>A server that answers every request with the same status, and a configuration
  file given by the options of its section \<open>General\<close>.\<close>

definition answer_env :: "int \<Rightarrow> 'd env" where
  "answer_env n =
     \<lparr>http = (\<lambda>_ _. Inr (plain_response n)), clock = (\<lambda>_. 1000), inbox = (\<lambda>_. Messages []),
      details = (\<lambda>_. None), stdin = []\<rparr>"

definition ini_of :: "(string \<times> string) list \<Rightarrow> ini" where
  "ini_of general = (\<lambda>(s, k). if s = ''General'' then map_of general k else None)"

text \<open>Stores that answer every request with status 200, the given offers and a purchase
  that grants nothing; a free offer of each store, by its price; and the warnings logged.\<close>

definition lotr_shop :: "web_store_offer list \<Rightarrow> lotr_store_data env" where
  "lotr_shop ws =
     \<lparr>http = (\<lambda>_ _. Inr ((plain_response 200)
                 \<lparr>store_data := Inr \<lparr>web_store_offers = ws\<rparr>, json_ok := True,
                  items_granted := Some 0\<rparr>)),
      clock = (\<lambda>_. 1000), inbox = (\<lambda>_. Messages []), details = (\<lambda>_. None), stdin = []\<rparr>"

definition swgoh_shop :: "store_item list \<Rightarrow> swgoh_store_data env" where
  "swgoh_shop its =
     \<lparr>http = (\<lambda>_ _. Inr ((plain_response 200)
                 \<lparr>store_data := Inr \<lparr>items = its\<rparr>, json_ok := True, items_granted := Some 0\<rparr>)),
      clock = (\<lambda>_. 1000), inbox = (\<lambda>_. Messages []), details = (\<lambda>_. None), stdin = []\<rparr>"

definition gift :: "rat \<Rightarrow> web_store_offer" where
  "gift amount =
     \<lparr>offer = \<lparr>offer_id = ''X'', price = \<lparr>purchase_currency = ''PREMIUM'', purchase_amount = amount\<rparr>,
               is_free_offer = True, purchase_cooldown_left = 0\<rparr>,
      title = ''Gift''\<rparr>"

definition swgoh_gift :: "int \<Rightarrow> store_item" where
  "swgoh_gift p =
     \<lparr>store_item_id = ''X'', name = ''Gift'',
      offers = [\<lparr>currencyType = ''FREE'', swgoh_price = p, availableAtEpoch = Some 0\<rparr>],
      startTime = 0, endTime = 2000\<rparr>"

definition warnings :: "conn \<Rightarrow> effect list" where
  "warnings st = filter (\<lambda>e. case e of Log l _ \<Rightarrow> l = WARNING | _ \<Rightarrow> False) (trace st)"

text \<open>Kinds of requests, and the numbers of offer fetches and of code requests that a
  connector has sent.\<close>

definition is_fetch :: "request \<Rightarrow> bool" where
  "is_fetch r = (r = Get_offers)"

definition is_request_otc :: "request \<Rightarrow> bool" where
  "is_request_otc r = (case r of Post_request_otc _ \<Rightarrow> True | _ \<Rightarrow> False)"

definition is_code_check :: "request \<Rightarrow> bool" where
  "is_code_check r = (case r of Post_code_check _ _ \<Rightarrow> True | _ \<Rightarrow> False)"

definition is_purchase :: "request \<Rightarrow> bool" where
  "is_purchase r = (case r of Post_purchase _ _ \<Rightarrow> True | _ \<Rightarrow> False)"

text \<open>A server whose offer endpoint answers 401 and whose other endpoints answer 200, with
  an inbox that receives the mail with the code after the first listing.\<close>

definition code_mail :: message where
  "code_mail = \<lparr>receiver = Some ''Me <me@example.com>'',
                 subject = Some ''Verification Code For EA Account: 123456''\<rparr>"

definition expired_env :: "'d env" where
  "expired_env =
     \<lparr>http = (\<lambda>_ rq. if rq = Get_offers then Inr (plain_response 401) else Inr (plain_response 200)),
      clock = (\<lambda>_. 1000),
      inbox = (\<lambda>n. if n = 0 then Messages [''m0''] else Messages [''m1'', ''m0'']),
      details = (\<lambda>i. if i = ''m1'' then Some code_mail
                     else Some \<lparr>receiver = Some ''me@example.com'', subject = Some ''Hello''\<rparr>),
      stdin = []\<rparr>"

text \<open>A store of the base connector whose login succeeds at once (the accounts URL
  redirects with a code, the token request returns the identifier \<open>token\<close>) and that
  answers the offer request with status 401 all the same.\<close>

definition expired_ea_env :: "'d env" where
  "expired_ea_env =
     \<lparr>http = (\<lambda>_ rq. if rq = Get_offers then Inr (plain_response 401)
                    else Inr ((plain_response 200)
                           \<lparr>json_ok := True, json_authId := Some ''token'', url_code := Some ''ac''\<rparr>)),
      clock = (\<lambda>_. 1000), inbox = (\<lambda>_. Messages []), details = (\<lambda>_. None), stdin = []\<rparr>"

definition fetches :: "conn \<Rightarrow> nat" where
  "fetches st = length (filter is_fetch (requests (trace st)))"

definition logins :: "conn \<Rightarrow> nat" where
  "logins st = length (filter is_request_otc (requests (trace st)))"


fun first_code :: "'d env \<Rightarrow> string \<Rightarrow> string list \<Rightarrow> string option" where
  "first_code env mail [] = None"
| "first_code env mail (m # ms) =
     (case details env m of
        None \<Rightarrow> first_code env mail ms
      | Some msg \<Rightarrow>
          (case code_in mail msg of
             Some c \<Rightarrow> Some c
           | None \<Rightarrow> first_code env mail ms))"




text \<open>The second connector has the configuration, the email and the Gmail connector of
  the first one, and its trace and more, and every request among the added effects
  satisfies \<open>P\<close>.\<close>

definition adds :: "(request \<Rightarrow> bool) \<Rightarrow> conn \<Rightarrow> conn \<Rightarrow> bool" where
  "adds P st st' =
     (config st' = config st \<and> email st' = email st \<and> gmail_connector st' = gmail_connector st
      \<and> (\<exists>es. trace st' = trace st @ es \<and> list_all P (requests es)))"

text \<open>The requests of the signin pages.\<close>

definition signin_request :: "request \<Rightarrow> bool" where
  "signin_request r = (case r of Get_signin _ \<Rightarrow> True | Post_email _ _ \<Rightarrow> True
      | Post_one_time_code _ _ \<Rightarrow> True | Post_access_code _ \<Rightarrow> True | _ \<Rightarrow> False)"

section \<open>Properties\<close>

subsection \<open>Effects and fields\<close>

lemma requests_append [simp]: "requests (xs @ ys) = requests xs @ requests ys"
  by (induction xs rule: requests.induct) auto

lemma listings_append [simp]: "listings (xs @ ys) = listings xs + listings ys"
  by (induction xs rule: listings.induct) auto

lemma clock_reads_append [simp]: "clock_reads (xs @ ys) = clock_reads xs + clock_reads ys"
  by (induction xs rule: clock_reads.induct) auto

lemma emit_simps [simp]:
  "trace (emit e st) = trace st @ [e]" "heap (emit e st) = heap st" "seqno (emit e st) = seqno st"
  "config (emit e st) = config st" "email (emit e st) = email st"
  "session (emit e st) = session st" "auth_id (emit e st) = auth_id st"
  "gmail_connector (emit e st) = gmail_connector st" "session_file (emit e st) = session_file st"
  by (simp_all add: emit_def)

lemma log_msg_simps [simp]:
  "trace (log_msg l m st) = trace st @ [Log l m]" "heap (log_msg l m st) = heap st"
  "seqno (log_msg l m st) = seqno st" "config (log_msg l m st) = config st"
  "email (log_msg l m st) = email st" "session (log_msg l m st) = session st"
  "auth_id (log_msg l m st) = auth_id st" "gmail_connector (log_msg l m st) = gmail_connector st"
  "session_file (log_msg l m st) = session_file st"
  by (simp_all add: log_msg_def)

lemma queue_log_msg [simp]: "queue (log_msg l m st) = queue st"
  by (simp add: queue_def)

lemma queue_emit [simp]: "queue (emit e st) = queue st"
  by (simp add: queue_def)

subsection \<open>What a call adds to the trace\<close>

lemma adds_refl [simp]: "adds P st st"
  by (simp add: adds_def)

lemma adds_trans: "adds P st st1 \<Longrightarrow> adds P st1 st2 \<Longrightarrow> adds P st st2"
  by (auto simp: adds_def)

lemma adds_mono: "adds P st st' \<Longrightarrow> (\<And>r. P r \<Longrightarrow> Q r) \<Longrightarrow> adds Q st st'"
  by (auto simp: adds_def list_all_iff)

lemma adds_prefix: "adds P st st' \<Longrightarrow> prefix (trace st) (trace st')"
  by (auto simp: adds_def)


lemma adds_count:
  assumes "adds P st st'" and "\<And>r. P r \<Longrightarrow> \<not> Q r"
  shows "filter Q (requests (trace st')) = filter Q (requests (trace st))"
  using assms by (auto simp: adds_def list_all_iff filter_empty_conv)



lemma adds_emit [simp]: "\<forall>r. e \<noteq> Http r \<Longrightarrow> adds P st st1 \<Longrightarrow> adds P st (emit e st1)"
  by (cases e) (auto simp: adds_def)

lemma adds_emit_Http [simp]: "P r \<Longrightarrow> adds P st st1 \<Longrightarrow> adds P st (emit (Http r) st1)"
  by (auto simp: adds_def)

lemma adds_log [simp]: "adds P st st1 \<Longrightarrow> adds P st (log_msg l m st1)"
  by (auto simp: adds_def)

lemma adds_update [simp]:
  "adds P st (st1\<lparr>session := s\<rparr>) = adds P st st1"
  "adds P st (st1\<lparr>auth_id := a\<rparr>) = adds P st st1"
  "adds P st (st1\<lparr>session_file := f\<rparr>) = adds P st st1"
  "adds P st (st1\<lparr>heap := h\<rparr>) = adds P st st1"
  "adds P st (st1\<lparr>seqno := n\<rparr>) = adds P st st1"
  by (simp_all add: adds_def)

lemma adds_and_then:
  assumes "adds P st (snd m)" and "\<And>x st1. adds P st st1 \<Longrightarrow> adds P st (snd (f x st1))"
  shows "adds P st (snd (and_then m f))"
  using assms by (cases m) (auto simp: and_then_def split: sum.splits)

lemma adds_enterabs [simp]: "adds P st (enterabs t p a kw st1) = adds P st st1"
  by (simp add: enterabs_def)

lemma adds_now: "adds P st st1 \<Longrightarrow> adds P st (snd (now env st1))"
  by (simp add: now_def)

lemma adds_enter: "adds P st st1 \<Longrightarrow> adds P st (enter env d p a kw st1)"
  by (simp add: enter_def now_def split: prod.splits)

lemma adds_timedelta: "adds P st st1 \<Longrightarrow> adds P st (snd (timedelta s st1))"
  by (simp add: timedelta_def)

lemma adds_get_delta: "adds P st st1 \<Longrightarrow> adds P st (snd (get_delta env st1))"
  by (auto simp: get_delta_def now_def adds_timedelta split: prod.splits list.splits)

lemma adds_LotR_schedule_purchase:
  "adds P st st1 \<Longrightarrow> adds P st (snd (LotR_schedule_purchase env d i c st1))"
  by (auto simp: LotR_schedule_purchase_def intro!: adds_and_then adds_timedelta adds_enter)

lemma adds_EA_schedule_purchase:
  "adds P st st1 \<Longrightarrow> adds P st (snd (EA_schedule_purchase env d i c st1))"
  by (auto simp: EA_schedule_purchase_def intro!: adds_and_then adds_timedelta adds_enter)

lemma adds_send: "P rq \<Longrightarrow> adds P st st1 \<Longrightarrow> adds P st (snd (send env rq st1))"
  by (auto simp: send_def split: sum.splits)

lemma adds_LotR_get_offers: "P Get_offers \<Longrightarrow> adds P st st1 \<Longrightarrow> adds P st (snd (LotR_get_offers env st1))"
  by (auto simp: LotR_get_offers_def Let_def intro!: adds_and_then adds_send split: sum.splits)

lemma adds_EA_get_offers: "P Get_offers \<Longrightarrow> adds P st st1 \<Longrightarrow> adds P st (snd (EA_get_offers env st1))"
  by (auto simp: EA_get_offers_def Let_def intro!: adds_and_then adds_send split: sum.splits)

lemma adds_purchase_offer:
  "P (Post_purchase i c) \<Longrightarrow> adds P st st1 \<Longrightarrow> adds P st (snd (purchase_offer env i c st1))"
  by (auto simp: purchase_offer_def Let_def intro!: adds_and_then adds_send split: sum.splits)

lemma adds_save_session: "adds P st st1 \<Longrightarrow> adds P st (snd (save_session l st1))"
  by (simp add: save_session_def)


lemma adds_verify_otc:
  "P (Post_code_check (email st1) c) \<Longrightarrow> adds P st st1 \<Longrightarrow> adds P st (snd (verify_otc env c st1))"
  by (auto simp: verify_otc_def Let_def intro!: adds_and_then adds_send adds_save_session)

lemma adds_get_messages: "adds P st st1 \<Longrightarrow> adds P st (snd (get_messages env st1))"
  by (simp add: get_messages_def)

lemma adds_LotR_get_code: "adds P st st1 \<Longrightarrow> adds P st (snd (LotR_get_code_from_message env m st1))"
  by (auto simp: LotR_get_code_from_message_def split: option.splits)

lemma adds_LotR_scan: "adds P st st1 \<Longrightarrow> adds P st (snd (LotR_scan env p ms st1))"
proof (induction ms arbitrary: st1)
  case Nil then show ?case by simp
next
  case (Cons m ms)
  from Cons.prems have "adds P st (snd (LotR_get_code_from_message env m st1))"
    by (rule adds_LotR_get_code)
  then show ?case
    using Cons.prems Cons.IH by (auto split: prod.splits sum.splits option.splits)
qed

lemma adds_LotR_poll: "adds P st st1 \<Longrightarrow> adds P st (snd (LotR_poll env n pre st1))"
proof (induction n arbitrary: st1 pre)
  case 0 then show ?case by simp
next
  case (Suc n)
  have a: "adds P st (snd (get_messages env (emit Sleep st1)))"
    using Suc.prems by (simp add: adds_get_messages)
  show ?case
    using a Suc.prems Suc.IH adds_LotR_scan [of P st _ env]
    by (auto split: prod.splits sum.splits option.splits) (metis snd_conv)+
qed

lemma adds_EA_get_code: "adds P st st1 \<Longrightarrow> adds P st (snd (EA_get_code_from_message env m st1))"
  by (simp add: EA_get_code_from_message_def adds_LotR_get_code)

lemma adds_EA_get_messages: "adds P st st1 \<Longrightarrow> adds P st (snd (EA_get_messages env st1))"
  by (simp add: EA_get_messages_def adds_get_messages split: prod.splits)
    (metis adds_get_messages adds_log snd_conv)

lemma adds_EA_scan: "adds P st st1 \<Longrightarrow> adds P st (snd (EA_scan env p ms st1))"
proof (induction ms arbitrary: st1)
  case Nil then show ?case by simp
next
  case (Cons m ms)
  from Cons.prems have "adds P st (snd (EA_get_code_from_message env m st1))"
    by (rule adds_EA_get_code)
  then show ?case
    using Cons.prems Cons.IH by (auto split: prod.splits sum.splits option.splits)
qed

lemma adds_EA_poll: "adds P st st1 \<Longrightarrow> adds P st (snd (EA_poll env n pre st1))"
proof (induction n arbitrary: st1 pre)
  case 0 then show ?case by simp
next
  case (Suc n)
  obtain l st2 where g: "EA_get_messages env (emit Sleep st1) = (l, st2)"
    by (cases "EA_get_messages env (emit Sleep st1)")
  have a: "adds P st st2"
    using adds_EA_get_messages [of P st "emit Sleep st1" env] Suc.prems g by simp
  show ?case
  proof (cases l)
    case None
    then show ?thesis using g a Suc.IH by simp
  next
    case (Some new)
    show ?thesis
    proof (cases new)
      case Http_failed
      then show ?thesis using g a Some Suc.IH by simp
    next
      case (Messages ms)
      obtain r st3 where sc: "\<And>p. \<exists>r st3. EA_scan env p (messages new) st2 = (r, st3) \<and> adds P st st3"
        using adds_EA_scan [OF a, of env _ "messages new"] by (metis surj_pair snd_conv)
      show ?thesis
      proof (cases "first_id new")
        case (Inl e) then show ?thesis using g a Some Messages by simp
      next
        case (Inr new_id)
        show ?thesis
        proof (cases "first_id pre")
          case (Inl e) then show ?thesis using g a Some Messages Inr by simp
        next
          case pr: (Inr pre_id)
          obtain r st3 where s3: "EA_scan env pre_id (messages new) st2 = (r, st3)" "adds P st st3"
            using sc by blast
          show ?thesis using g a Some Messages Inr pr s3 Suc.IH
            by (auto split: sum.splits option.splits)
        qed
      qed
    qed
  qed
qed

lemma adds_EA_get_code_from_gmail_account:
  "adds P st st1 \<Longrightarrow> adds P st (snd (EA_get_code_from_gmail_account env pre st1))"
  by (auto simp: EA_get_code_from_gmail_account_def adds_EA_poll split: option.splits)

lemma adds_EA_finish_login:
  "P (Post_access_code c) \<Longrightarrow> adds P st st1 \<Longrightarrow> adds P st (snd (EA_finish_login env c st1))"
  by (auto simp: EA_finish_login_def intro!: adds_and_then adds_send split: option.splits)

lemma adds_EA_perform_login:
  assumes "\<And>r. signin_request r \<Longrightarrow> P r" and "adds P st st1"
  shows "adds P st (snd (EA_perform_login env u st1))"
  unfolding EA_perform_login_def
  apply (rule adds_and_then)
   apply (rule adds_send)
    apply (simp add: assms signin_request_def)
   apply (rule assms)
  apply (clarsimp split: prod.splits)
  subgoal for response st2 pre st3
    using adds_EA_get_messages [of P st "log_msg DEBUG ''Submit email...'' st2" env]
    apply simp
    apply (rule adds_and_then)
     apply (rule adds_send)
      apply (simp add: assms signin_request_def)
     apply assumption
    apply clarsimp
    apply (rule adds_and_then)
     apply (rule adds_EA_get_code_from_gmail_account)
     apply assumption
    apply (rule adds_and_then)
     apply (simp split: option.splits)
    apply (rule adds_and_then)
     apply (rule adds_send)
      apply (simp add: assms signin_request_def)
     apply assumption
    apply (simp split: option.splits)
    done
  done

subsection \<open>The purchase scheduler\<close>

text \<open>
  C6. With delay scheduling enabled and a maximum \<open>Y > 0\<close>, a call of
  \<open>schedule_purchase\<close> with a delay \<open>X > Y\<close> enqueues nothing: the scheduler's queue,
  with the heap under it and the sequence counter, is the same after the call as
  before, in both connectors.
\<close>

theorem schedule_purchase_over_max_delay:
  assumes "allow_scheduling (config st)"
    and "max_delay_scheduling_time (config st) = Y" and "0 < Y" and "Y < X"
  shows "queue (snd (LotR_schedule_purchase env X item currency st)) = queue st
       \<and> heap (snd (LotR_schedule_purchase env X item currency st)) = heap st
       \<and> seqno (snd (LotR_schedule_purchase env X item currency st)) = seqno st
       \<and> queue (snd (EA_schedule_purchase env X item currency st)) = queue st
       \<and> heap (snd (EA_schedule_purchase env X item currency st)) = heap st
       \<and> seqno (snd (EA_schedule_purchase env X item currency st)) = seqno st"
  using assms
  by (simp add: LotR_schedule_purchase_def EA_schedule_purchase_def and_then_def timedelta_def)

theorem schedule_purchase_over_max_delay_witness:
  "allow_scheduling (config (fresh_conn delay_cfg))
   \<and> max_delay_scheduling_time (config (fresh_conn delay_cfg)) = 100
   \<and> (0::int) < 100 \<and> (100::int) < 200
   \<and> heap (snd (LotR_schedule_purchase (offline_env :: unit env) 200 ''X'' ''PREMIUM''
                  (fresh_conn delay_cfg))) = []
   \<and> heap (snd (EA_schedule_purchase (offline_env :: unit env) 200 ''X'' ''PREMIUM''
                  (fresh_conn delay_cfg))) = []"
  using schedule_purchase_over_max_delay
          [of "fresh_conn delay_cfg" 100 200 "offline_env :: unit env" "''X''" "''PREMIUM''"]
  by (simp add: fresh_conn_def delay_cfg_def)

text \<open>
  C1. The claim: a second call of \<open>schedule_purchase\<close> for an item that has a Purchase
  task in the queue enqueues nothing and logs a warning, so that the queue holds one
  Purchase task for the item. The code does not do this. On a connector in
  self-scheduling mode with an empty queue, two calls for the item \<open>X\<close> both return
  normally and leave two Purchase tasks for \<open>X\<close> in the queue, and no warning is logged,
  in both connectors: the duplicate check looks for the item id among the keys of
  \<open>kwargs\<close>, which are \<open>item_id\<close> and \<open>currency_type\<close>.
\<close>

theorem schedule_purchase_twice_same_item:
  "(case LotR_schedule_purchase (offline_env :: unit env) 3600 ''X'' ''PREMIUM''
          (snd (LotR_schedule_purchase (offline_env :: unit env) 3600 ''X'' ''PREMIUM''
                  (fresh_conn self_cfg))) of
      (r, st) \<Rightarrow> r = Inr () \<and> length (purchase_tasks ''X'' st) = 2
                 \<and> filter (\<lambda>e. case e of Log l _ \<Rightarrow> l = WARNING | _ \<Rightarrow> False) (trace st) = [])
   \<and> (case EA_schedule_purchase (offline_env :: unit env) 3600 ''X'' ''PREMIUM''
          (snd (EA_schedule_purchase (offline_env :: unit env) 3600 ''X'' ''PREMIUM''
                  (fresh_conn self_cfg))) of
      (r, st) \<Rightarrow> r = Inr () \<and> length (purchase_tasks ''X'' st) = 2
                 \<and> filter (\<lambda>e. case e of Log l _ \<Rightarrow> l = WARNING | _ \<Rightarrow> False) (trace st) = [])"
  by (simp add: LotR_schedule_purchase_def EA_schedule_purchase_def fresh_conn_def self_cfg_def
      offline_env_def and_then_def timedelta_def enter_def now_def emit_def enterabs_def
      log_msg_def queue_def purchase_tasks_def less_eq_prod_def)

text \<open>The check fires only for an item whose id is a key of some queued \<open>kwargs\<close>.\<close>

lemma already_scheduled_key:
  "already_scheduled item q \<Longrightarrow> \<exists>e \<in> set q. action e = Purchase_offer \<and> item \<in> fst ` set (kwargs e)"
  by (induction q) (auto split: if_splits)

text \<open>
  C7. The claim: with delay scheduling active, no Purchase task queued and
  \<open>run_directly\<close> false, \<open>schedule_run\<close> enqueues nothing. The base connector does so
  (lemma \<open>EA_schedule_run_delay_mode\<close>). The Lord of the Rings connector has no such
  branch: on a connector in delay mode with an empty queue it enqueues the fallback run
  cycle one hour ahead.
\<close>

theorem LotR_schedule_run_delay_mode_enqueues:
  "(case LotR_schedule_run (offline_env :: unit env) Some (\<lambda>_. None) False (fresh_conn delay_cfg) of
      Some (r, st) \<Rightarrow> r = Inr () \<and> map action (queue st) = [Run] \<and> map time (queue st) = [4600]
    | None \<Rightarrow> False)"
  by (simp add: LotR_schedule_run_def fresh_conn_def delay_cfg_def offline_env_def enter_def
      now_def emit_def enterabs_def log_msg_def queue_def)

lemma EA_schedule_run_delay_mode:
  assumes "allow_scheduling (config st)"
    and "find (\<lambda>e. action e = Purchase_offer) (queue st) = None"
  shows "EA_schedule_run env ret run False st = ret (Inr (), st)"
  using assms by (simp add: EA_schedule_run_def)

subsection \<open>Fetching the offers\<close>

text \<open>
  C3. When the server answers the offer request, \<open>get_offers\<close> of both connectors
  returns the store data mapped from the body on status 200 (or raises what the mapping
  raises), returns \<open>None\<close> on status 401, and raises on every other status; so no status
  other than 200 and 401 returns normally.
\<close>

theorem get_offers_by_status:
  assumes "http env (requests (trace st)) Get_offers = Inr response"
  shows "(status_code response = 200 \<longrightarrow>
            fst (LotR_get_offers env st)
              = (case store_data response of Inl e \<Rightarrow> Inl e | Inr d \<Rightarrow> Inr (Some d))
          \<and> fst (EA_get_offers env st)
              = (case store_data response of Inl e \<Rightarrow> Inl e | Inr d \<Rightarrow> Inr (Some d)))
       \<and> (status_code response = 401 \<longrightarrow>
            fst (LotR_get_offers env st) = Inr None \<and> fst (EA_get_offers env st) = Inr None)
       \<and> (status_code response \<noteq> 200 \<and> status_code response \<noteq> 401 \<longrightarrow>
            fst (LotR_get_offers env st) = Inl (Unhandled_Status (status_code response))
          \<and> fst (EA_get_offers env st) = Inl (Unhandled_Status (status_code response)))"
  using assms
  by (auto simp: LotR_get_offers_def EA_get_offers_def send_def and_then_def Let_def
      split: sum.splits)

theorem get_offers_by_status_witness:
  "fst (LotR_get_offers (answer_env 200 :: unit env) (fresh_conn manual_cfg)) = Inl KeyError
   \<and> fst (EA_get_offers
            ((answer_env 200 :: unit env)
               \<lparr>http := \<lambda>_ _. Inr ((plain_response 200)\<lparr>store_data := Inr ()\<rparr>)\<rparr>)
            (fresh_conn manual_cfg)) = Inr (Some ())
   \<and> fst (LotR_get_offers (answer_env 401 :: unit env) (fresh_conn manual_cfg)) = Inr None
   \<and> fst (EA_get_offers (answer_env 500 :: unit env) (fresh_conn manual_cfg))
       = Inl (Unhandled_Status 500)"
  using get_offers_by_status
          [of "answer_env 200 :: unit env" "fresh_conn manual_cfg" "plain_response 200"]
        get_offers_by_status
          [of "(answer_env 200 :: unit env)
                 \<lparr>http := \<lambda>_ _. Inr ((plain_response 200)\<lparr>store_data := Inr ()\<rparr>)\<rparr>"
              "fresh_conn manual_cfg" "(plain_response 200)\<lparr>store_data := Inr ()\<rparr>"]
        get_offers_by_status
          [of "answer_env 401 :: unit env" "fresh_conn manual_cfg" "plain_response 401"]
        get_offers_by_status
          [of "answer_env 500 :: unit env" "fresh_conn manual_cfg" "plain_response 500"]
  by (simp add: answer_env_def plain_response_def)

subsection \<open>Loading the configuration\<close>

text \<open>
  C9. Loading a configuration from a file that the parser reads: when both
  \<open>script_is_self_scheduling\<close> and \<open>allow_scheduling\<close> are true, \<open>load_config\<close> raises
  \<open>SchedulingConflictError\<close> and returns no configuration, so nothing can run with it;
  when the first is false, or the first is true and the second false, it returns the
  configuration.
\<close>

theorem load_config_scheduling_conflict:
  assumes "read_file p = Inr i"
  shows "(Config_is_self_scheduling \<lparr>file_path = p, parser = i\<rparr> = Inr True
           \<and> Config_allow_scheduling \<lparr>file_path = p, parser = i\<rparr> = Inr True
           \<longrightarrow> load_config read_file (Path p) = Inl SchedulingConflictError)
       \<and> (Config_is_self_scheduling \<lparr>file_path = p, parser = i\<rparr> = Inr False
           \<or> Config_is_self_scheduling \<lparr>file_path = p, parser = i\<rparr> = Inr True
             \<and> Config_allow_scheduling \<lparr>file_path = p, parser = i\<rparr> = Inr False
           \<longrightarrow> load_config read_file (Path p) = Inr (Some \<lparr>file_path = p, parser = i\<rparr>))"
  using assms by (auto simp: load_config_def valiate_def)

theorem load_config_scheduling_conflict_witness:
  "load_config
     (\<lambda>_. Inr (ini_of [(''script_is_self_scheduling'', ''True''), (''allow_scheduling'', ''yes'')]))
     (Path ''c.ini'') = Inl SchedulingConflictError
   \<and> load_config (\<lambda>_. Inr (ini_of [(''allow_scheduling'', ''yes'')])) (Path ''c.ini'')
       = Inr (Some \<lparr>file_path = ''c.ini'', parser = ini_of [(''allow_scheduling'', ''yes'')]\<rparr>)
   \<and> load_config
       (\<lambda>_. Inr (ini_of [(''script_is_self_scheduling'', ''on''), (''allow_scheduling'', ''False'')]))
       (Path ''c.ini'')
       = Inr (Some \<lparr>file_path = ''c.ini'',
                     parser = ini_of [(''script_is_self_scheduling'', ''on''),
                                      (''allow_scheduling'', ''False'')]\<rparr>)"
  using load_config_scheduling_conflict
          [of "\<lambda>_. Inr (ini_of [(''script_is_self_scheduling'', ''True''),
                                  (''allow_scheduling'', ''yes'')])"
              "''c.ini''"
              "ini_of [(''script_is_self_scheduling'', ''True''), (''allow_scheduling'', ''yes'')]"]
        load_config_scheduling_conflict
          [of "\<lambda>_. Inr (ini_of [(''allow_scheduling'', ''yes'')])" "''c.ini''"
              "ini_of [(''allow_scheduling'', ''yes'')]"]
        load_config_scheduling_conflict
          [of "\<lambda>_. Inr (ini_of [(''script_is_self_scheduling'', ''on''),
                                  (''allow_scheduling'', ''False'')])"
              "''c.ini''"
              "ini_of [(''script_is_self_scheduling'', ''on''), (''allow_scheduling'', ''False'')]"]
  by (simp add: Config_is_self_scheduling_def Config_allow_scheduling_def getboolean_def
      ini_of_def lower_def)

subsection \<open>Logging in through the EA account pages\<close>

lemma trace_send [simp]: "trace (snd (send env rq st)) = trace st @ [Http rq]"
  by (simp add: send_def split: sum.splits)

lemma EA_login_runs:
  assumes "force_login \<or> \<not> truthy (auth_id st)"
  shows "EA_login env force_login st =
        and_then (send env Get_accounts_auth
                    (log_msg DEBUG ''Send auth0 request...''
                       (log_msg INFO ''Perform login for account %s'' st)))
          (\<lambda>response st1.
             if status_code response \<noteq> 200 then (Inl (Exception ''Failed to get accounts URL''), st1)
             else
               (case url_code response of
                  Some code \<Rightarrow>
                    EA_finish_login env code
                      (log_msg DEBUG ''Code found in URL, skipping login process...'' st1)
                | None \<Rightarrow>
                    and_then (EA_perform_login env (url response)
                                (log_msg DEBUG ''Perform login process...'' st1))
                      (\<lambda>code st2.
                         and_then (EA_finish_login env code st2)
                           (\<lambda>_ st3. save_session DEBUG st3))))"
  using assms by (auto simp: EA_login_def)

lemma adds_EA_login_rest:
  assumes "force_login \<or> \<not> truthy (auth_id st)"
  shows "adds (\<lambda>_. True)
           (snd (send env Get_accounts_auth
                   (log_msg DEBUG ''Send auth0 request...''
                      (log_msg INFO ''Perform login for account %s'' st))))
           (snd (EA_login env force_login st))"
proof -
  obtain r st1 where s: "send env Get_accounts_auth
                   (log_msg DEBUG ''Send auth0 request...''
                      (log_msg INFO ''Perform login for account %s'' st)) = (r, st1)"
    by (cases "send env Get_accounts_auth
                   (log_msg DEBUG ''Send auth0 request...''
                      (log_msg INFO ''Perform login for account %s'' st))")
  have rest: "adds (\<lambda>_. True) st1
      (snd (and_then (EA_perform_login env u (log_msg DEBUG ''Perform login process...'' st1))
                      (\<lambda>code st2.
                         and_then (EA_finish_login env code st2)
                           (\<lambda>_ st3. save_session DEBUG st3))))" for u
    by (intro adds_and_then adds_EA_perform_login adds_EA_finish_login adds_save_session
        adds_log adds_refl) simp_all
  show ?thesis
  proof (cases r)
    case (Inl e)
    then show ?thesis using s by (simp add: EA_login_runs [OF assms] and_then_def)
  next
    case (Inr response)
    then show ?thesis
      using s rest [of "url response"]
      by (auto simp: EA_login_runs [OF assms] and_then_def [of "(Inr response, st1)"]
          adds_EA_finish_login split: option.splits)
  qed
qed

text \<open>
  C10. With \<open>auth_id\<close> set and \<open>force_login\<close> false, \<open>login\<close> of the base connector
  returns at once and the connector is the one it was: no request, no effect at all, the
  same session, \<open>auth_id\<close> and session file. In every other case the login flow runs:
  the trace goes on with the two log lines and the request to the accounts URL.
\<close>

theorem EA_login_skips_when_authenticated:
  "(truthy (auth_id st) \<longrightarrow> EA_login env False st = (Inr (), st))
   \<and> (force_login \<or> \<not> truthy (auth_id st) \<longrightarrow>
        prefix (trace st @ [Log INFO ''Perform login for account %s'',
                            Log DEBUG ''Send auth0 request...'', Http Get_accounts_auth])
               (trace (snd (EA_login env force_login st))))"
proof (intro conjI impI)
  assume "truthy (auth_id st)"
  then show "EA_login env False st = (Inr (), st)"
    by (simp add: EA_login_def)
next
  assume "force_login \<or> \<not> truthy (auth_id st)"
  then have "prefix (trace (snd (send env Get_accounts_auth
                   (log_msg DEBUG ''Send auth0 request...''
                      (log_msg INFO ''Perform login for account %s'' st)))))
              (trace (snd (EA_login env force_login st)))"
    by (intro adds_prefix [of "\<lambda>_. True"] adds_EA_login_rest)
  then show "prefix (trace st @ [Log INFO ''Perform login for account %s'',
                            Log DEBUG ''Send auth0 request...'', Http Get_accounts_auth])
               (trace (snd (EA_login env force_login st)))"
    by simp
qed

theorem EA_login_skips_when_authenticated_witness:
  "EA_login (offline_env :: unit env) False ((fresh_conn self_cfg)\<lparr>auth_id := Some ''token''\<rparr>)
     = (Inr (), (fresh_conn self_cfg)\<lparr>auth_id := Some ''token''\<rparr>)
   \<and> prefix [Log INFO ''Perform login for account %s'',
                            Log DEBUG ''Send auth0 request...'', Http Get_accounts_auth]
        (trace (snd (EA_login (offline_env :: unit env) False (fresh_conn self_cfg))))
   \<and> prefix [Log INFO ''Perform login for account %s'',
                            Log DEBUG ''Send auth0 request...'', Http Get_accounts_auth]
        (trace (snd (EA_login (offline_env :: unit env) True ((fresh_conn self_cfg)\<lparr>auth_id := Some ''token''\<rparr>))))"
  using EA_login_skips_when_authenticated [of "(fresh_conn self_cfg)\<lparr>auth_id := Some ''token''\<rparr>" "offline_env :: unit env" True]
    EA_login_skips_when_authenticated [of "fresh_conn self_cfg" "offline_env :: unit env" False]
  by (simp add: truthy_def fresh_conn_def)

subsection \<open>Loading the session\<close>

lemma standing_tasks_ping:
  assumes "e = Read_session_file \<or> e = Log INFO ''Successfully loaded session from file %s''"
    and "e \<notin> set (trace st)"
  shows "e \<notin> set (trace (snd (schedule_ping env st)))"
  using assms
  by (auto simp: schedule_ping_def and_then_def get_delta_def now_def enter_def enterabs_def
      timedelta_def split: prod.splits sum.splits list.splits)

lemma standing_tasks_check:
  assumes "e = Read_session_file \<or> e = Log INFO ''Successfully loaded session from file %s''"
    and "e \<notin> set (trace st)"
  shows "e \<notin> set (trace (snd (schedule_connection_check env st)))"
  using assms
  by (auto simp: schedule_connection_check_def send_def now_def enter_def enterabs_def
      split: prod.splits sum.splits error.splits)

lemma standing_tasks_keep:
  assumes "e = Read_session_file \<or> e = Log INFO ''Successfully loaded session from file %s''"
    and "e \<notin> set (trace st)"
  shows "e \<notin> set (trace (snd (and_then (schedule_ping env st)
              (\<lambda>_ st2. schedule_connection_check env st2))))"
proof (cases "schedule_ping env st")
  case (Pair r st1)
  then have "e \<notin> set (trace st1)"
    using standing_tasks_ping [OF assms, of env] by simp
  then show ?thesis
    using Pair standing_tasks_check [OF assms(1), of st1 env] by (cases r) (simp_all add: and_then_def)
qed

lemma EA_init_raises: "fst (EA_init cfg mail gmail file) = Inl AttributeError"
  by (simp add: EA_init_def Let_def)

text \<open>
  C5, as claimed: loading the session never raises. It does: with a session file whose
  content is not a pickle, \<open>load_session\<close> raises what \<open>pickle.load\<close> raises, and so does
  the constructor of the Lord of the Rings connector, which calls it.
\<close>

theorem load_session_raises_on_corrupt_file:
  "fst (load_session DEBUG ((fresh_conn manual_cfg)\<lparr>session_file := Some None\<rparr>)) = Inl PickleError
   \<and> fst (LotR_init (offline_env :: unit env) manual_cfg ''me@example.com'' (Some None))
       = Inl PickleError"
  by (simp add: LotR_init_def load_session_def and_then_def)

text \<open>
  C5, amended. \<open>load_session\<close>, at the log level \<open>l\<close> of the connector: when the content
  of the file unpickles, the file is read, the session becomes the one of the file and
  the load is logged; when it does not, the file is read, \<open>load_session\<close> raises, the
  session stays as it was and nothing is logged. The constructor of the Lord of the
  Rings connector: with a file that does not unpickle, the exception leaves the
  constructor, with no standing task enqueued; with a file that unpickles, outside the
  self-scheduling mode, the connector is the fresh one with the session of the file and
  the log line of the load; with no file, the file is not read and no load is logged,
  and outside the self-scheduling mode the connector is the fresh one, with nothing
  logged.
\<close>

theorem load_session_outcomes:
  "(session_file st = Some (Some s) \<longrightarrow>
      load_session l st
        = (Inr (), log_msg l ''Successfully loaded session from file %s''
                     ((emit Read_session_file st)\<lparr>session := s\<rparr>)))
   \<and> (session_file st = Some None \<longrightarrow>
        load_session l st = (Inl PickleError, emit Read_session_file st))
   \<and> LotR_init env cfg mail (Some None)
       = (Inl PickleError,
          \<lparr>config = cfg, email = mail, session = [], auth_id = None, gmail_connector = True,
           heap = [], seqno = 0, session_file = Some None, trace = [Read_session_file]\<rparr>)
   \<and> (\<not> is_self_scheduling cfg \<longrightarrow>
        LotR_init env cfg mail (Some (Some s))
          = (Inr (),
             \<lparr>config = cfg, email = mail, session = s, auth_id = None, gmail_connector = True,
              heap = [], seqno = 0, session_file = Some (Some s),
              trace = [Read_session_file,
                       Log INFO ''Successfully loaded session from file %s'']\<rparr>))
   \<and> Read_session_file \<notin> set (trace (snd (LotR_init env cfg mail None)))
   \<and> Log INFO ''Successfully loaded session from file %s''
       \<notin> set (trace (snd (LotR_init env cfg mail None)))
   \<and> (\<not> is_self_scheduling cfg \<longrightarrow>
        LotR_init env cfg mail None
          = (Inr (),
             \<lparr>config = cfg, email = mail, session = [], auth_id = None, gmail_connector = True,
              heap = [], seqno = 0, session_file = None, trace = []\<rparr>))"
proof (intro conjI impI)
  show "Read_session_file \<notin> set (trace (snd (LotR_init env cfg mail None)))"
    by (simp add: LotR_init_def Let_def and_then_def [of "(Inr (), _)"] standing_tasks_keep)
  show "Log INFO ''Successfully loaded session from file %s''
       \<notin> set (trace (snd (LotR_init env cfg mail None)))"
    by (simp add: LotR_init_def Let_def and_then_def [of "(Inr (), _)"] standing_tasks_keep)
  show "LotR_init env cfg mail (Some None)
       = (Inl PickleError,
          \<lparr>config = cfg, email = mail, session = [], auth_id = None, gmail_connector = True,
           heap = [], seqno = 0, session_file = Some None, trace = [Read_session_file]\<rparr>)"
    by (simp add: LotR_init_def load_session_def and_then_def [of "(Inl _, _)"] emit_def)
  show "LotR_init env cfg mail (Some (Some s))
          = (Inr (),
             \<lparr>config = cfg, email = mail, session = s, auth_id = None, gmail_connector = True,
              heap = [], seqno = 0, session_file = Some (Some s),
              trace = [Read_session_file,
                       Log INFO ''Successfully loaded session from file %s'']\<rparr>)"
    if "\<not> is_self_scheduling cfg"
    using that
    by (simp add: LotR_init_def load_session_def and_then_def schedule_ping_def
        schedule_connection_check_def emit_def log_msg_def)
  show "LotR_init env cfg mail None
          = (Inr (),
             \<lparr>config = cfg, email = mail, session = [], auth_id = None, gmail_connector = True,
              heap = [], seqno = 0, session_file = None, trace = []\<rparr>)"
    if "\<not> is_self_scheduling cfg"
    using that
    by (simp add: LotR_init_def and_then_def schedule_ping_def schedule_connection_check_def)
qed (simp_all add: load_session_def)

theorem load_session_outcomes_witness:
  "load_session DEBUG ((fresh_conn manual_cfg)\<lparr>session_file := Some (Some [(''sid'', ''1'')])\<rparr>)
     = (Inr (), (fresh_conn manual_cfg)
          \<lparr>session := [(''sid'', ''1'')], session_file := Some (Some [(''sid'', ''1'')]),
           trace := [Read_session_file,
                     Log DEBUG ''Successfully loaded session from file %s'']\<rparr>)
   \<and> load_session INFO ((fresh_conn manual_cfg)\<lparr>session_file := Some None\<rparr>)
     = (Inl PickleError,
        (fresh_conn manual_cfg)\<lparr>session_file := Some None, trace := [Read_session_file]\<rparr>)
   \<and> LotR_init (offline_env :: unit env) manual_cfg ''me@example.com''
       (Some (Some [(''sid'', ''1'')]))
     = (Inr (), (fresh_conn manual_cfg)
          \<lparr>session := [(''sid'', ''1'')], session_file := Some (Some [(''sid'', ''1'')]),
           trace := [Read_session_file,
                     Log INFO ''Successfully loaded session from file %s'']\<rparr>)
   \<and> LotR_init (offline_env :: unit env) manual_cfg ''me@example.com'' None
     = (Inr (), fresh_conn manual_cfg)"
  using load_session_outcomes
          [of "(fresh_conn manual_cfg)\<lparr>session_file := Some (Some [(''sid'', ''1'')])\<rparr>"
              "[(''sid'', ''1'')]" DEBUG "offline_env :: unit env" manual_cfg "''me@example.com''"]
        load_session_outcomes
          [of "(fresh_conn manual_cfg)\<lparr>session_file := Some None\<rparr>" "[]" INFO
              "offline_env :: unit env" manual_cfg "''me@example.com''"]
  by (simp add: fresh_conn_def manual_cfg_def emit_def log_msg_def)

subsection \<open>Free offers with a price\<close>

text \<open>
  C8, as claimed: every offer that is classified as free and has a non-zero price is
  logged as an anomaly and skipped. Not so for a price below zero in the Lord of the
  Rings store, where the check is \<open>purchase_amount > 0\<close>, nor for any price in the Star
  Wars store, whose \<open>_handle_offers\<close> does not look at the price: in both run cycles
  below the offer is purchased at once and no warning is logged.
\<close>

theorem free_offer_with_price_is_purchased:
  "(case LotR_run_cycle (lotr_shop [gift (-5)]) (fresh_conn manual_cfg) of
      (r, st) \<Rightarrow> r = Inr True \<and> requests (trace st) = [Get_offers, Post_purchase ''X'' ''PREMIUM'']
                 \<and> warnings st = [])
   \<and> (case Swgoh_run_cycle (swgoh_shop [swgoh_gift 5])
             ((fresh_conn manual_cfg)\<lparr>auth_id := Some ''token''\<rparr>) of
      (r, st) \<Rightarrow> r = Inr True \<and> requests (trace st) = [Get_offers, Post_purchase ''X'' ''FREE'']
                 \<and> warnings st = [])"
  by (simp add: LotR_run_cycle_def Swgoh_run_cycle_def lotr_shop_def swgoh_shop_def gift_def swgoh_gift_def
      fresh_conn_def manual_cfg_def LotR_get_offers_def EA_get_offers_def send_def and_then_def
      plain_response_def purchase_offer_def warnings_def EA_login_def truthy_def
      Swgoh_handle_offers_def now_def fromtimestamp_def Let_def)

lemma LotR_offers_loop_append:
  "LotR_offers_loop env (xs @ ys) p st =
     (case LotR_offers_loop env xs p st of
        (Inl e, st1) \<Rightarrow> (Inl e, st1)
      | (Inr q, st1) \<Rightarrow> LotR_offers_loop env ys q st1)"
  by (induction env xs p st rule: LotR_offers_loop.induct)
    (auto split: prod.splits sum.splits option.splits)

text \<open>
  C8, amended. In the run cycle of the Lord of the Rings store, an offer that is flagged
  free and has a purchase amount above zero is only logged: wherever it stands among
  the offers, the loop handles the offers before it, logs the offer found and the
  warning, and goes on with the offers after it from a connector that differs by these
  two log lines only. It is neither purchased nor scheduled, and it is not counted as
  a purchase.
\<close>

theorem LotR_run_skips_priced_free_offer:
  assumes "is_free_offer (offer ws)" and "purchase_amount (price (offer ws)) > 0"
  shows "LotR_offers_loop env (before @ ws # rest) p st =
           (case LotR_offers_loop env before p st of
              (Inl e, st1) \<Rightarrow> (Inl e, st1)
            | (Inr q, st1) \<Rightarrow>
                LotR_offers_loop env rest q
                  (log_msg WARNING ''Free Offer without Free price found! Please investigate...''
                     (log_msg INFO ''FreeOffer found: %s'' st1)))
       \<and> LotR_offers_loop env [ws] p st =
           (Inr p, log_msg WARNING ''Free Offer without Free price found! Please investigate...''
                     (log_msg INFO ''FreeOffer found: %s'' st))"
  using assms by (simp add: LotR_offers_loop_append split: prod.splits sum.splits)


theorem LotR_run_skips_priced_free_offer_witness:
  "is_free_offer (offer (gift 5)) \<and> purchase_amount (price (offer (gift 5))) > 0
   \<and> LotR_offers_loop (lotr_shop [gift 5]) [gift 5] 0 (fresh_conn manual_cfg)
       = (Inr 0, (fresh_conn manual_cfg)
            \<lparr>trace := [Log INFO ''FreeOffer found: %s'',
                       Log WARNING ''Free Offer without Free price found! Please investigate...'']\<rparr>)"
  using LotR_run_skips_priced_free_offer
          [of "gift 5" "lotr_shop [gift 5]" "[]" "[]" 0 "fresh_conn manual_cfg"]
  by (simp add: gift_def log_msg_def emit_def fresh_conn_def)

subsection \<open>The run cycle and the unauthenticated answer\<close>

lemma requests_LotR_get_offers [simp]:
  "requests (trace (snd (LotR_get_offers env st))) = requests (trace st) @ [Get_offers]"
  by (simp add: LotR_get_offers_def and_then_def send_def Let_def split: sum.splits)

lemma requests_EA_get_offers [simp]:
  "requests (trace (snd (EA_get_offers env st))) = requests (trace st) @ [Get_offers]"
  by (simp add: EA_get_offers_def and_then_def send_def Let_def split: sum.splits)

lemma requests_request_otc [simp]:
  "requests (trace (snd (request_otc env st))) = requests (trace st) @ [Post_request_otc (email st)]"
  by (simp add: request_otc_def and_then_def send_def Let_def split: sum.splits)

lemma adds_granted: "adds P st st1 \<Longrightarrow> adds P st (granted k st1)"
  by (induction k arbitrary: st1) simp_all

lemma adds_LotR_offers_loop:
  assumes "\<And>r. is_purchase r \<Longrightarrow> P r"
  shows "adds P st st1 \<Longrightarrow> adds P st (snd (LotR_offers_loop env ws p st1))"
proof (induction env ws p st1 rule: LotR_offers_loop.induct)
  case (1 env purchases st1)
  then show ?case by simp
next
  case (2 env ws_offer rest purchases st1)
  let ?s = "log_msg INFO ''FreeOffer found: %s'' st1"
  have a: "adds P st ?s" using "2.prems" by simp
  have sp: "adds P st (snd (LotR_schedule_purchase env (purchase_cooldown_left (offer ws_offer))
                (offer_id (offer ws_offer)) (purchase_currency (price (offer ws_offer))) ?s))"
    by (rule adds_LotR_schedule_purchase [OF a])
  have po: "adds P st (snd (purchase_offer env (offer_id (offer ws_offer))
                (purchase_currency (price (offer ws_offer))) ?s))"
    by (rule adds_purchase_offer [OF _ a]) (simp add: assms is_purchase_def)
  show ?case
    using "2.prems" "2.IH" a sp po
    by (auto simp: adds_granted split: prod.splits sum.splits option.splits)
qed

lemma LotR_login_requests:
  "\<exists>cs. requests (trace (snd (LotR_login env st)))
           = requests (trace st) @ Post_request_otc (email st) # cs
        \<and> list_all is_code_check cs"
proof -
  let ?s0 = "log_msg INFO ''Perform login for account %s'' st"
  obtain pre st1 where g: "get_messages env ?s0 = (pre, st1)"
    by (cases "get_messages env ?s0")
  then have t1: "requests (trace st1) = requests (trace st)" and e1: "email st1 = email st"
    by (auto simp: get_messages_def)
  obtain r st2 where o: "request_otc env st1 = (r, st2)"
    by (cases "request_otc env st1")
  then have t2: "requests (trace st2) = requests (trace st) @ [Post_request_otc (email st)]"
    using requests_request_otc [of env st1] t1 e1 by simp
  have rest: "adds is_code_check st2
     (snd (and_then (LotR_poll env (nat (max_login_attempts (config st2))) pre st2)
                 (\<lambda>code st3.
                    case code of
                      None \<Rightarrow> (Inl code_not_found, st3)
                    | Some c \<Rightarrow> verify_otc env c st3)))"
    by (intro adds_and_then adds_LotR_poll adds_refl)
      (auto split: option.splits intro!: adds_verify_otc simp: is_code_check_def)
  then obtain es where es: "trace (snd (LotR_login env st)) = trace st2 @ es"
      "list_all is_code_check (requests es)"
    using g o by (cases r) (auto simp: LotR_login_def and_then_def [of "(_, st2)"] adds_def)
  show ?thesis
    using es t2 by auto
qed

lemma LotR_login_counts:
  "logins (snd (LotR_login env st)) = Suc (logins st)"
  "fetches (snd (LotR_login env st)) = fetches st"
  using LotR_login_requests [of env st]
  by (auto simp: logins_def fetches_def is_request_otc_def is_fetch_def list_all_iff
      is_code_check_def filter_empty_conv split: request.splits
      intro!: arg_cong [where f = length])


lemma fetches_log [simp]: "fetches (log_msg l m st) = fetches st"
  by (simp add: fetches_def)

lemma logins_log [simp]: "logins (log_msg l m st) = logins st"
  by (simp add: logins_def)

lemma get_offers_counts [simp]:
  "fetches (snd (LotR_get_offers env st)) = Suc (fetches st)"
  "logins (snd (LotR_get_offers env st)) = logins st"
  "fetches (snd (EA_get_offers env st)) = Suc (fetches st)"
  "logins (snd (EA_get_offers env st)) = logins st"
  by (simp_all add: fetches_def logins_def is_fetch_def is_request_otc_def)

lemma LotR_offers_loop_counts:
  "fetches (snd (LotR_offers_loop env ws p st)) = fetches st"
  "logins (snd (LotR_offers_loop env ws p st)) = logins st"
proof -
  have a: "adds is_purchase st (snd (LotR_offers_loop env ws p st))"
    by (rule adds_LotR_offers_loop) simp_all
  show "fetches (snd (LotR_offers_loop env ws p st)) = fetches st"
    unfolding fetches_def
    by (rule arg_cong [where f = length], rule adds_count [OF a])
      (auto simp: is_purchase_def is_fetch_def split: request.splits)
  show "logins (snd (LotR_offers_loop env ws p st)) = logins st"
    unfolding logins_def
    by (rule arg_cong [where f = length], rule adds_count [OF a])
      (auto simp: is_purchase_def is_request_otc_def split: request.splits)
qed

lemma LotR_get_offers_401:
  assumes "http env (requests (trace st)) Get_offers = Inr response" and "status_code response = 401"
  shows "fst (LotR_get_offers env st) = Inr None"
  using assms by (simp add: LotR_get_offers_def and_then_def send_def Let_def)

lemma LotR_run_cycle_after_401:
  assumes "fst (LotR_get_offers env (log_msg INFO ''Getting offers...'' st)) = Inr None"
  shows "LotR_run_cycle env st =
     (case LotR_login env (snd (LotR_get_offers env (log_msg INFO ''Getting offers...'' st))) of
        (Inl e, st2) \<Rightarrow> (Inl e, st2)
      | (Inr _, st2) \<Rightarrow>
          (case LotR_get_offers env st2 of
             (Inl e, st3) \<Rightarrow> (Inl e, st3)
           | (Inr None, st3) \<Rightarrow> (Inl AttributeError, st3)
           | (Inr (Some data), st3) \<Rightarrow>
               (case LotR_offers_loop env (web_store_offers data) 0 st3 of
                  (Inl e, st4) \<Rightarrow> (Inl e, st4)
                | (Inr purchases, st4) \<Rightarrow> (Inr (purchases > 0), st4))))"
  using assms
  by (cases "LotR_get_offers env (log_msg INFO ''Getting offers...'' st)")
    (auto simp: LotR_run_cycle_def and_then_def split: prod.splits sum.splits option.splits)

lemma LotR_run_cycle_no_401:
  assumes "fst (LotR_get_offers env (log_msg INFO ''Getting offers...'' st)) \<noteq> Inr None"
  shows "LotR_run_cycle env st =
     (case LotR_get_offers env (log_msg INFO ''Getting offers...'' st) of
             (Inl e, st3) \<Rightarrow> (Inl e, st3)
           | (Inr None, st3) \<Rightarrow> (Inl AttributeError, st3)
           | (Inr (Some data), st3) \<Rightarrow>
               (case LotR_offers_loop env (web_store_offers data) 0 st3 of
                  (Inl e, st4) \<Rightarrow> (Inl e, st4)
                | (Inr purchases, st4) \<Rightarrow> (Inr (purchases > 0), st4)))"
  using assms
  by (cases "LotR_get_offers env (log_msg INFO ''Getting offers...'' st)")
    (auto simp: LotR_run_cycle_def and_then_def split: prod.splits sum.splits option.splits)

lemma LotR_run_cycle_counts_401:
  assumes "fst (LotR_get_offers env (log_msg INFO ''Getting offers...'' st)) = Inr None"
  shows "logins (snd (LotR_run_cycle env st)) = Suc (logins st)"
    and "fetches (snd (LotR_run_cycle env st))
       = fetches st
         + (if fst (LotR_login env (snd (LotR_get_offers env (log_msg INFO ''Getting offers...'' st))))
               = Inr () then 2 else 1)"
proof -
  let ?st1 = "snd (LotR_get_offers env (log_msg INFO ''Getting offers...'' st))"
  obtain r2 st2 where l: "LotR_login env ?st1 = (r2, st2)"
    by (cases "LotR_login env ?st1")
  have c2: "logins st2 = Suc (logins st)" "fetches st2 = Suc (fetches st)"
    using LotR_login_counts [of env ?st1] l by simp_all
  obtain r3 st3 where g: "LotR_get_offers env st2 = (r3, st3)"
    by (cases "LotR_get_offers env st2")
  have c3: "logins st3 = Suc (logins st)" "fetches st3 = Suc (Suc (fetches st))"
    using get_offers_counts(1,2) [of env st2] g c2 by simp_all
  have c4: "logins (snd (LotR_offers_loop env ws 0 st3)) = Suc (logins st)"
    "fetches (snd (LotR_offers_loop env ws 0 st3)) = Suc (Suc (fetches st))" for ws
    using c3 by (simp_all add: LotR_offers_loop_counts)
  show "logins (snd (LotR_run_cycle env st)) = Suc (logins st)"
    using l g c2 c3 c4
    by (auto simp: LotR_run_cycle_after_401 [OF assms] split: prod.splits sum.splits option.splits)
      (metis snd_conv)+
  show "fetches (snd (LotR_run_cycle env st))
       = fetches st + (if fst (LotR_login env ?st1) = Inr () then 2 else 1)"
    using l g c2 c3 c4
    by (auto simp: LotR_run_cycle_after_401 [OF assms] split: prod.splits sum.splits option.splits)
      (metis snd_conv)+
qed



text \<open>
  C4. The claim: in every run cycle an answer 401 to the offer fetch triggers login once
  and one retry of the fetch, and an answer 401 to the retry is fatal. The Lord of the
  Rings connector does so (lemma \<open>LotR_run_cycle_login_and_retry\<close>), and so does
  \<open>get_free_offers\<close> of the base connector. \<open>run\<close> of the base connector, here with the
  Star Wars store, does not: it calls \<open>login\<close> before the fetch, fetches once, and hands
  the \<open>None\<close> of the 401 to \<open>_handle_offers\<close>, which raises on it. On a connector that
  holds an \<open>auth_id\<close> the cycle sends one request, the fetch, and no login at all. On a
  connector without one it sends the two requests of the login that precedes the fetch,
  then the fetch, and again nothing after the 401.
\<close>

theorem Swgoh_run_cycle_no_retry:
  "(case Swgoh_run_cycle (answer_env 401) ((fresh_conn self_cfg)\<lparr>auth_id := Some ''token''\<rparr>) of
      (r, st) \<Rightarrow> r = Inl AttributeError \<and> requests (trace st) = [Get_offers])
   \<and> (case Swgoh_run_cycle expired_ea_env (fresh_conn self_cfg) of
      (r, st) \<Rightarrow> r = Inl AttributeError
        \<and> requests (trace st) = [Get_accounts_auth, Post_access_code ''ac'', Get_offers]
        \<and> auth_id st = Some ''token'')"
  by (simp add: Swgoh_run_cycle_def EA_login_def EA_finish_login_def truthy_def fresh_conn_def
      and_then_def EA_get_offers_def send_def answer_env_def expired_ea_env_def plain_response_def
      Swgoh_handle_offers_def now_def log_msg_def emit_def)

text \<open>
  The run cycle of the base connector in general: whenever the login before the fetch
  returns and the server answers the fetch with status 401, the cycle ends with the
  exception of \<open>_handle_offers\<close> and the fetch is its last request.
\<close>

lemma Swgoh_run_cycle_401:
  assumes "EA_login env False st = (Inr (), st1)"
    and "http env (requests (trace st1)) Get_offers = Inr response"
    and "status_code response = 401"
  shows "fst (Swgoh_run_cycle env st) = Inl AttributeError"
    and "requests (trace (snd (Swgoh_run_cycle env st))) = requests (trace st1) @ [Get_offers]"
  using assms
  by (simp_all add: Swgoh_run_cycle_def and_then_def EA_get_offers_def send_def
      Swgoh_handle_offers_def now_def)

text \<open>
  The run cycle of the Lord of the Rings connector. After an answer 401 to the offer
  fetch, login is started exactly once (one code request is sent); the offers are fetched
  exactly once more when login returns, and not again when it raises; an answer 401 to
  the second fetch ends the cycle with an exception. After any other answer to the first
  fetch there is no login and no second fetch.
\<close>

lemma LotR_run_cycle_login_and_retry:
  fixes env :: "lotr_store_data env"
  shows
  "(http env (requests (trace st)) Get_offers = Inr response \<and> status_code response = 401 \<longrightarrow>
      logins (snd (LotR_run_cycle env st)) = logins st + 1
    \<and> fetches (snd (LotR_run_cycle env st))
        = fetches st
          + (if fst (LotR_login env (snd (LotR_get_offers env (log_msg INFO ''Getting offers...'' st))))
                = Inr () then 2 else 1)
    \<and> (fst (LotR_login env (snd (LotR_get_offers env (log_msg INFO ''Getting offers...'' st)))) = Inr ()
        \<and> http env (requests (trace (snd (LotR_login env
                   (snd (LotR_get_offers env (log_msg INFO ''Getting offers...'' st))))))) Get_offers
            = Inr retry_response
        \<and> status_code retry_response = 401
        \<longrightarrow> fst (LotR_run_cycle env st) = Inl AttributeError))
   \<and> (http env (requests (trace st)) Get_offers = Inr response \<and> status_code response \<noteq> 401 \<longrightarrow>
        logins (snd (LotR_run_cycle env st)) = logins st
      \<and> fetches (snd (LotR_run_cycle env st)) = fetches st + 1)"
proof (intro conjI impI)
  let ?s0 = "log_msg INFO ''Getting offers...'' st"
  let ?st1 = "snd (LotR_get_offers env ?s0)"
  {
    assume h: "http env (requests (trace st)) Get_offers = Inr response \<and> status_code response = 401"
    then have f: "fst (LotR_get_offers env ?s0) = Inr None"
      by (intro LotR_get_offers_401 [of env ?s0 response]) simp_all
    show "logins (snd (LotR_run_cycle env st)) = logins st + 1"
      using LotR_run_cycle_counts_401(1) [OF f] by simp
    show "fetches (snd (LotR_run_cycle env st))
        = fetches st + (if fst (LotR_login env ?st1) = Inr () then 2 else 1)"
      using LotR_run_cycle_counts_401(2) [OF f] by simp
    assume l: "fst (LotR_login env ?st1) = Inr ()
        \<and> http env (requests (trace (snd (LotR_login env ?st1)))) Get_offers = Inr retry_response
        \<and> status_code retry_response = 401"
    then have "fst (LotR_get_offers env (snd (LotR_login env ?st1))) = Inr None"
      by (intro LotR_get_offers_401 [of env _ retry_response]) simp_all
    then show "fst (LotR_run_cycle env st) = Inl AttributeError"
      using l by (auto simp: LotR_run_cycle_after_401 [OF f] split: prod.splits sum.splits option.splits)
  }
  {
    assume h: "http env (requests (trace st)) Get_offers = Inr response \<and> status_code response \<noteq> 401"
    then have f: "fst (LotR_get_offers env ?s0) \<noteq> Inr None"
      by (auto simp: LotR_get_offers_def and_then_def send_def Let_def split: sum.splits)
    obtain r st3 where g: "LotR_get_offers env ?s0 = (r, st3)"
      by (cases "LotR_get_offers env ?s0")
    have c3: "logins st3 = logins st" "fetches st3 = Suc (fetches st)"
      using get_offers_counts(1,2) [of env ?s0] g by simp_all
    have c4: "logins (snd (LotR_offers_loop env ws 0 st3)) = logins st"
      "fetches (snd (LotR_offers_loop env ws 0 st3)) = Suc (fetches st)" for ws
      using c3 by (simp_all add: LotR_offers_loop_counts)
    show "logins (snd (LotR_run_cycle env st)) = logins st"
      using g c3 c4
      by (auto simp: LotR_run_cycle_no_401 [OF f] split: prod.splits sum.splits option.splits)
        (metis snd_conv)+
    show "fetches (snd (LotR_run_cycle env st)) = fetches st + 1"
      using g c3 c4
      by (auto simp: LotR_run_cycle_no_401 [OF f] split: prod.splits sum.splits option.splits)
        (metis snd_conv)+
  }
qed

text \<open>
  On a store that answers every offer fetch with status 401 and whose login succeeds, the
  cycle sends one code request and two fetches and ends with the exception; on a store
  that answers with status 200 it sends one fetch and no code request.
\<close>

lemma LotR_run_cycle_login_and_retry_example:
  "logins (snd (LotR_run_cycle expired_env (fresh_conn manual_cfg))) = 1
   \<and> fetches (snd (LotR_run_cycle expired_env (fresh_conn manual_cfg))) = 2
   \<and> fst (LotR_run_cycle expired_env (fresh_conn manual_cfg)) = Inl AttributeError
   \<and> logins (snd (LotR_run_cycle (lotr_shop []) (fresh_conn manual_cfg))) = 0
   \<and> fetches (snd (LotR_run_cycle (lotr_shop []) (fresh_conn manual_cfg))) = 1"
proof -
  let ?c = "fresh_conn manual_cfg"
  let ?ok = "(plain_response 200)\<lparr>store_data := Inr \<lparr>web_store_offers = []\<rparr>, json_ok := True,
                  items_granted := Some 0\<rparr> :: lotr_store_data response"
  have h1: "http (expired_env :: lotr_store_data env) (requests (trace ?c)) Get_offers
              = Inr (plain_response 401)
            \<and> status_code (plain_response 401 :: lotr_store_data response) = 401"
    by (simp add: expired_env_def plain_response_def)
  have h2: "fst (LotR_login (expired_env :: lotr_store_data env)
                  (snd (LotR_get_offers expired_env (log_msg INFO ''Getting offers...'' ?c)))) = Inr ()"
    by code_simp
  have h3: "http (expired_env :: lotr_store_data env)
              (requests (trace (snd (LotR_login expired_env
                 (snd (LotR_get_offers expired_env (log_msg INFO ''Getting offers...'' ?c)))))))
              Get_offers = Inr (plain_response 401)"
    by (simp add: expired_env_def)
  have h4: "http (lotr_shop []) (requests (trace ?c)) Get_offers = Inr ?ok
            \<and> status_code ?ok \<noteq> 401"
    by (simp add: lotr_shop_def plain_response_def)
  have z: "logins ?c = 0" "fetches ?c = 0"
    by (simp_all add: logins_def fetches_def fresh_conn_def)
  note a = LotR_run_cycle_login_and_retry [where env = expired_env and st = ?c
                and response = "plain_response 401" and retry_response = "plain_response 401",
                THEN conjunct1, THEN mp, OF h1]
  note b = LotR_run_cycle_login_and_retry [where env = "lotr_shop []" and st = ?c and response = ?ok
                and retry_response = ?ok,
                THEN conjunct2, THEN mp, OF h4]
  have r: "status_code (plain_response 401 :: lotr_store_data response) = 401"
    by (simp add: plain_response_def)
  from a have "logins (snd (LotR_run_cycle expired_env ?c)) = 1"
    by (simp add: z)
  moreover from a have "fetches (snd (LotR_run_cycle expired_env ?c)) = 2"
    by (simp only: h2 z if_True) simp
  moreover from a h2 h3 r have "fst (LotR_run_cycle expired_env ?c) = Inl AttributeError"
    by blast
  moreover from b have "logins (snd (LotR_run_cycle (lotr_shop []) ?c)) = 0"
      "fetches (snd (LotR_run_cycle (lotr_shop []) ?c)) = 1"
    by (simp_all add: z)
  ultimately show ?thesis by simp
qed


subsection \<open>Polling the inbox for the code\<close>















lemma listings_send [simp]: "listings (trace (snd (send env rq st))) = listings (trace st)"
  by (simp add: send_def split: sum.splits)












lemma LotR_login_empty_inbox:
  "fst (LotR_login ((expired_env :: unit env)\<lparr>inbox := \<lambda>n. if n = 0 then Messages [] else Messages [''m1'']\<rparr>)
         (fresh_conn manual_cfg)) = Inl IndexError"
  by code_simp

lemma EA_SUBJECT_PATTERN_Some:
  assumes "EA_SUBJECT_PATTERN s = Some c"
  shows "prefix ''Verification Code For EA'' s" and "c \<noteq> []" and "\<forall>d \<in> set c. is_digit d"
    and "c = takeWhile is_digit (dropWhile (\<lambda>x. \<not> is_digit x) (drop 24 s))"
  using assms
  by (auto simp: EA_SUBJECT_PATTERN_def Let_def split: if_splits dest: set_takeWhileD)

lemma code_in_Some:
  "code_in mail msg = Some c \<Longrightarrow>
     \<exists>r s. receiver msg = Some r \<and> sublist mail r \<and> subject msg = Some s
           \<and> EA_SUBJECT_PATTERN s = Some c"
  by (auto simp: code_in_def split: option.splits if_splits)

lemma first_code_Some:
  "first_code env mail ms = Some c \<Longrightarrow>
     \<exists>newer m older msg. ms = newer @ m # older \<and> first_code env mail newer = None
        \<and> details env m = Some msg \<and> code_in mail msg = Some c"
proof (induction ms)
  case Nil
  then show ?case by simp
next
  case (Cons x xs)
  show ?case
  proof (cases "first_code env mail [x]")
    case None
    then have "first_code env mail xs = Some c"
      using Cons.prems by (auto split: option.splits)
    then obtain newer m older msg where
      "xs = newer @ m # older" "first_code env mail newer = None"
      "details env m = Some msg" "code_in mail msg = Some c"
      using Cons.IH by blast
    then show ?thesis
      using None
      by (intro exI [of _ "x # newer"] exI [of _ m] exI [of _ older] exI [of _ msg])
        (auto split: option.splits)
  next
    case (Some c')
    then have "c' = c" using Cons.prems by (auto split: option.splits)
    then show ?thesis
      using Some
      by (intro exI [of _ "[]"] exI [of _ x] exI [of _ xs]) (auto split: option.splits)
  qed
qed







text \<open>What the conditions on the inbox keep out: a message whose details cannot be read
  makes login raise, and when the baseline message has been removed from the inbox,
  login takes the code of an older message although no message arrived.\<close>

lemma LotR_login_unreadable_message:
  "fst (LotR_login ((expired_env :: unit env)\<lparr>details := \<lambda>_. None\<rparr>) (fresh_conn manual_cfg))
     = Inl AttributeError"
  by code_simp

lemma LotR_login_removed_baseline:
  "requests (trace (snd (LotR_login
      ((expired_env :: unit env)
         \<lparr>inbox := \<lambda>n. if n = 0 then Messages [''m0'', ''m1''] else Messages [''m1'']\<rparr>)
      (fresh_conn manual_cfg))))
     = [Post_request_otc ''me@example.com'', Post_code_check ''me@example.com'' ''123456'']"
  by code_simp


end
